theory Spec2Isabelle
  imports Complex_Main
begin

section \<open>Python values, errors and arithmetic\<close>

text \<open>
  The values a GRIB key can hold, as the code sees them through \<^verbatim>\<open>md.get(key, None)\<close>:
  \<^verbatim>\<open>None\<close>, an integer, a float or a string. Floats are idealised as reals (no rounding,
  no NaN, no infinities); integers are Python's unbounded integers.
\<close>

datatype pyval = PNone | PInt int | PFloat real | PStr string

text \<open>
  Every \<^verbatim>\<open>raise\<close> of the source is a value. \<open>TypeError\<close> without argument is the one Python
  raises for an operand of the wrong type in \<^verbatim>\<open>-\<close>, \<^verbatim>\<open>/\<close>, \<^verbatim>\<open>abs\<close>, \<^verbatim>\<open>max\<close> and \<^verbatim>\<open>min\<close>.
  \<open>UnsupportedGridType v\<close> is
  \<^verbatim>\<open>TypeError(f"Cannot make GridSpec, unsupported grid_type={grid_type}")\<close>;
  \<open>ValueError_keys ks\<close> is \<^verbatim>\<open>ValueError(f"None of the keys have valid value: {keys}")\<close>;
  \<open>ValueError msg\<close> carries the message of every other \<^verbatim>\<open>ValueError\<close>.
\<close>

datatype error =
    UnsupportedGridType pyval
  | ValueError string
  | ValueError_keys "string list"
  | TypeError
  | ZeroDivisionError
  | KeyError string
  | AssertionError

fun and_then :: "error + 'a \<Rightarrow> ('a \<Rightarrow> error + 'b) \<Rightarrow> error + 'b" where
  "and_then (Inl e) f = Inl e"
| "and_then (Inr v) f = f v"

text \<open>Python's \<^verbatim>\<open>==\<close>: numbers compare by value across int and float.\<close>

fun py_eq :: "pyval \<Rightarrow> pyval \<Rightarrow> bool" where
  "py_eq PNone PNone = True"
| "py_eq (PInt a) (PInt b) = (a = b)"
| "py_eq (PInt a) (PFloat b) = (of_int a = b)"
| "py_eq (PFloat a) (PInt b) = (a = of_int b)"
| "py_eq (PFloat a) (PFloat b) = (a = b)"
| "py_eq (PStr a) (PStr b) = (a = b)"
| "py_eq _ _ = False"

fun py_sub :: "pyval \<Rightarrow> pyval \<Rightarrow> error + pyval" where
  "py_sub (PInt a) (PInt b) = Inr (PInt (a - b))"
| "py_sub (PInt a) (PFloat b) = Inr (PFloat (of_int a - b))"
| "py_sub (PFloat a) (PInt b) = Inr (PFloat (a - of_int b))"
| "py_sub (PFloat a) (PFloat b) = Inr (PFloat (a - b))"
| "py_sub _ _ = Inl TypeError"

definition float_div :: "real \<Rightarrow> real \<Rightarrow> error + pyval" where
  "float_div a b = (if b = 0 then Inl ZeroDivisionError else Inr (PFloat (a / b)))"

fun py_truediv :: "pyval \<Rightarrow> pyval \<Rightarrow> error + pyval" where
  "py_truediv (PInt a) (PInt b) = float_div (of_int a) (of_int b)"
| "py_truediv (PInt a) (PFloat b) = float_div (of_int a) b"
| "py_truediv (PFloat a) (PInt b) = float_div a (of_int b)"
| "py_truediv (PFloat a) (PFloat b) = float_div a b"
| "py_truediv _ _ = Inl TypeError"

fun py_abs :: "pyval \<Rightarrow> error + pyval" where
  "py_abs (PInt a) = Inr (PInt \<bar>a\<bar>)"
| "py_abs (PFloat a) = Inr (PFloat \<bar>a\<bar>)"
| "py_abs _ = Inl TypeError"

text \<open>Strings order lexicographically by character code.\<close>

fun str_lt :: "string \<Rightarrow> string \<Rightarrow> bool" where
  "str_lt [] [] = False"
| "str_lt [] (y # ys) = True"
| "str_lt (x # xs) [] = False"
| "str_lt (x # xs) (y # ys) =
     ((of_char x :: nat) < of_char y \<or> (x = y \<and> str_lt xs ys))"

fun py_lt :: "pyval \<Rightarrow> pyval \<Rightarrow> error + bool" where
  "py_lt (PInt a) (PInt b) = Inr (a < b)"
| "py_lt (PInt a) (PFloat b) = Inr (of_int a < b)"
| "py_lt (PFloat a) (PInt b) = Inr (a < of_int b)"
| "py_lt (PFloat a) (PFloat b) = Inr (a < b)"
| "py_lt (PStr a) (PStr b) = Inr (str_lt a b)"
| "py_lt _ _ = Inl TypeError"

text \<open>
  \<^verbatim>\<open>max(a, b)\<close> keeps \<open>a\<close> unless \<^verbatim>\<open>b > a\<close>; \<^verbatim>\<open>min(a, b)\<close> keeps \<open>a\<close> unless \<^verbatim>\<open>b < a\<close>.
\<close>

definition py_max :: "pyval \<Rightarrow> pyval \<Rightarrow> error + pyval" where
  "py_max a b = and_then (py_lt a b) (\<lambda>gt. Inr (if gt then b else a))"

definition py_min :: "pyval \<Rightarrow> pyval \<Rightarrow> error + pyval" where
  "py_min a b = and_then (py_lt b a) (\<lambda>lt. Inr (if lt then b else a))"

section \<open>Metadata as a key/value view\<close>

text \<open>
  A metadata object (a \<^verbatim>\<open>RawMetadata\<close> over a dict, or a GRIB metadata facade) is used by
  the GridSpec makers only through \<^verbatim>\<open>get\<close>; it is a finite map from key names to values.
\<close>

type_synonym metadata = "string \<rightharpoonup> pyval"

text \<open>\<^verbatim>\<open>md.get(key, default)\<close>.\<close>

definition md_get_default :: "metadata \<Rightarrow> string \<Rightarrow> pyval \<Rightarrow> pyval" where
  "md_get_default md key dflt = (case md key of None \<Rightarrow> dflt | Some v \<Rightarrow> v)"

text \<open>\<^verbatim>\<open>md.get(key, None)\<close> and \<^verbatim>\<open>md.get(key)\<close>.\<close>

definition md_get :: "metadata \<Rightarrow> string \<Rightarrow> pyval" where
  "md_get md key = md_get_default md key PNone"

definition missing_is_none :: "pyval \<Rightarrow> pyval" where
  "missing_is_none x = (if py_eq x (PInt 2147483647) then PNone else x)"

section \<open>gridspec.py: vocabulary and the maker classes\<close>

text \<open>The table \<^verbatim>\<open>vocabulary\<close>: GRIB keys to GridSpec keys.\<close>

definition vocabulary :: "string \<rightharpoonup> string" where
  "vocabulary = map_of
    [(''Nx'', ''nx''),
     (''Ny'', ''ny''),
     (''Ni'', ''ni''),
     (''Nj'', ''nj''),
     (''DxInMetres'', ''dx_in_metres''),
     (''DyInMetres'', ''dy_in_metres''),
     (''xDirectionGridLengthInMetres'', ''dx_in_metres''),
     (''yDirectionGridLengthInMetres'', ''dy_in_metres''),
     (''LaDInDegrees'', ''lad''),
     (''LoVInDegrees'', ''lov''),
     (''Latin1InDegrees'', ''latin1''),
     (''Latin2InDegrees'', ''latin2''),
     (''latitudeOfSouthernPoleInDegrees'', ''lat_south_pole''),
     (''longitudeOfSouthernPoleInDegrees'', ''lon_south_pole''),
     (''orientationOfTheGridInDegrees'', ''orientation''),
     (''jPointsAreConsecutive'', ''j_points_consecutive''),
     (''iScansNegatively'', ''i_scans_negatively''),
     (''jScansPositively'', ''j_scans_positively''),
     (''angleOfRotationInDegrees'', ''angle_of_rotation''),
     (''standardParallelInDegrees'', ''standard_parallel''),
     (''centralLongitudeInDegrees'', ''central_longitude''),
     (''shapeOfTheEarth'', ''shape_of_the_earth''),
     (''radius'', ''radius''),
     (''earthMajorAxis'', ''earth_major_axis''),
     (''earthMinorAxis'', ''earth_minor_axis'')]"

text \<open>
  An entry of the GridSpec dict: a value copied from the metadata, a list of values
  (\<open>grid\<close>, \<open>area\<close>, \<open>first_point\<close>, \<open>rotation\<close>), or the Gaussian resolution string
  \<^verbatim>\<open>f"{self.label}{N}"\<close>, kept as the label and the formatted value.
\<close>

datatype gval = GVal pyval | GList "pyval list" | GFmt string pyval

type_synonym gridspec = "string \<rightharpoonup> gval"

text \<open>The eleven concrete maker classes, in the order of the registry loop.\<close>

datatype maker =
    LatLonGridSpecMaker
  | ReducedLatLonGridSpecMaker
  | RotatedLatLonGridSpecMaker
  | RegularGaussianGridSpecMaker
  | ReducedGaussianGridSpecMaker
  | RegularRotatedGaussianGridSpecMaker
  | ReducedRotatedGaussianGridSpecMaker
  | MercatorGridSpecMaker
  | PolarStereographicGridSpecMaker
  | LambertGridSpecMaker
  | LambertAEAGridSpecMaker

fun GRID_TYPE :: "maker \<Rightarrow> string" where
  "GRID_TYPE LatLonGridSpecMaker = ''regular_ll''"
| "GRID_TYPE ReducedLatLonGridSpecMaker = ''reduced_ll''"
| "GRID_TYPE RotatedLatLonGridSpecMaker = ''rotated_ll''"
| "GRID_TYPE RegularGaussianGridSpecMaker = ''regular_gg''"
| "GRID_TYPE ReducedGaussianGridSpecMaker = ''reduced_gg''"
| "GRID_TYPE RegularRotatedGaussianGridSpecMaker = ''rotated_gg''"
| "GRID_TYPE ReducedRotatedGaussianGridSpecMaker = ''reduced_rotated_gg''"
| "GRID_TYPE MercatorGridSpecMaker = ''mercator''"
| "GRID_TYPE PolarStereographicGridSpecMaker = ''polar_stereographic''"
| "GRID_TYPE LambertGridSpecMaker = ''lambert''"
| "GRID_TYPE LambertAEAGridSpecMaker = ''lambert_azimuthal_equal_area''"

fun ROTATED :: "maker \<Rightarrow> bool" where
  "ROTATED RotatedLatLonGridSpecMaker = True"
| "ROTATED RegularRotatedGaussianGridSpecMaker = True"
| "ROTATED ReducedRotatedGaussianGridSpecMaker = True"
| "ROTATED _ = False"

text \<open>The classes deriving from \<^verbatim>\<open>GaussianGridSpecMaker\<close>.\<close>

fun is_gaussian :: "maker \<Rightarrow> bool" where
  "is_gaussian RegularGaussianGridSpecMaker = True"
| "is_gaussian ReducedGaussianGridSpecMaker = True"
| "is_gaussian RegularRotatedGaussianGridSpecMaker = True"
| "is_gaussian ReducedRotatedGaussianGridSpecMaker = True"
| "is_gaussian _ = False"

definition POSITIVE_SCAN_DIR :: int where
  "POSITIVE_SCAN_DIR = 1"

definition NEGATIVE_SCAN_DIR :: int where
  "NEGATIVE_SCAN_DIR = - 1"

text \<open>
  \<^verbatim>\<open>_get_first_valid\<close>: the first key whose value is not \<^verbatim>\<open>None\<close>; the loop over \<open>keys\<close> is
  the recursion, \<open>all_keys\<close> is the whole list for the error message.
\<close>

fun first_valid_loop :: "metadata \<Rightarrow> string list \<Rightarrow> pyval option" where
  "first_valid_loop md [] = None"
| "first_valid_loop md (k # ks) =
     (let v = md_get md k in if v \<noteq> PNone then Some v else first_valid_loop md ks)"

definition get_first_valid :: "metadata \<Rightarrow> string list \<Rightarrow> string \<Rightarrow> error + pyval" where
  "get_first_valid md keys desc =
     (case first_valid_loop md keys of
        Some v \<Rightarrow> Inr v
      | None \<Rightarrow>
          if desc \<noteq> [] then Inl (ValueError (''Could not determine '' @ desc))
          else Inl (ValueError_keys keys))"

definition first_lon :: "metadata \<Rightarrow> pyval" where
  "first_lon md = md_get md ''longitudeOfFirstGridPointInDegrees''"

definition last_lon :: "metadata \<Rightarrow> pyval" where
  "last_lon md = md_get md ''longitudeOfLastGridPointInDegrees''"

definition first_lat :: "metadata \<Rightarrow> pyval" where
  "first_lat md = md_get md ''latitudeOfFirstGridPointInDegrees''"

definition last_lat :: "metadata \<Rightarrow> pyval" where
  "last_lat md = md_get md ''latitudeOfLastGridPointInDegrees''"

definition north :: "metadata \<Rightarrow> error + pyval" where
  "north md = py_max (first_lat md) (last_lat md)"

definition south :: "metadata \<Rightarrow> error + pyval" where
  "south md = py_min (first_lat md) (last_lat md)"

definition x_scan_dir :: "metadata \<Rightarrow> error + int" where
  "x_scan_dir md =
     (let v = md_get md ''iScansNegatively'' in
      if v \<noteq> PNone then
        Inr (if py_eq v (PInt 0) then POSITIVE_SCAN_DIR else NEGATIVE_SCAN_DIR)
      else
        (let v = md_get md ''iScansPositively'' in
         if v \<noteq> PNone then
           Inr (if py_eq v (PInt 1) then POSITIVE_SCAN_DIR else NEGATIVE_SCAN_DIR)
         else Inl (ValueError ''Could not determine i-direction scanning mode'')))"

text \<open>
  \<^verbatim>\<open>west\<close> and \<^verbatim>\<open>east\<close>: the Gaussian classes override them to read the first and last
  longitude directly; every other class chooses by the scan direction.
\<close>

definition west :: "maker \<Rightarrow> metadata \<Rightarrow> error + pyval" where
  "west mk md =
     (if is_gaussian mk then Inr (first_lon md)
      else and_then (x_scan_dir md)
             (\<lambda>dir. Inr (if dir = POSITIVE_SCAN_DIR then first_lon md else last_lon md)))"

definition east :: "maker \<Rightarrow> metadata \<Rightarrow> error + pyval" where
  "east mk md =
     (if is_gaussian mk then Inr (last_lon md)
      else and_then (x_scan_dir md)
             (\<lambda>dir. Inr (if dir = POSITIVE_SCAN_DIR then last_lon md else first_lon md)))"

text \<open>The list \<^verbatim>\<open>[self.north(), self.west(), self.south(), self.east()]\<close>, left to right.\<close>

definition area :: "maker \<Rightarrow> metadata \<Rightarrow> error + pyval list" where
  "area mk md =
     and_then (north md) (\<lambda>n.
     and_then (west mk md) (\<lambda>w.
     and_then (south md) (\<lambda>s.
     and_then (east mk md) (\<lambda>e. Inr [n, w, s, e]))))"

text \<open>
  \<^verbatim>\<open>_add_one\<close> and \<^verbatim>\<open>_add\<close>: copy a key into the dict under its vocabulary name when its
  value is not \<^verbatim>\<open>None\<close>; a key outside the vocabulary raises.
\<close>

definition add_one :: "metadata \<Rightarrow> string \<Rightarrow> gridspec \<Rightarrow> error + gridspec" where
  "add_one md key d =
     (let v = md_get md key in
      if v \<noteq> PNone then
        (case vocabulary key of
           Some k \<Rightarrow> Inr (d(k \<mapsto> GVal v))
         | None \<Rightarrow> Inl (ValueError (''key='' @ key @ '' not found in vocabulary'')))
      else Inr d)"

fun add :: "metadata \<Rightarrow> string list \<Rightarrow> gridspec \<Rightarrow> error + gridspec" where
  "add md [] d = Inr d"
| "add md (k # ks) d = and_then (add_one md k d) (add md ks)"

definition add_rotation :: "maker \<Rightarrow> metadata \<Rightarrow> gridspec \<Rightarrow> error + gridspec" where
  "add_rotation mk md d =
     (if ROTATED mk then
        add md [''angleOfRotationInDegrees'']
          (d(''rotation'' \<mapsto>
             GList [md_get md ''latitudeOfSouthernPoleInDegrees'',
                    md_get md ''longitudeOfSouthernPoleInDegrees'']))
      else Inr d)"

definition scan_mode_keys :: "string list" where
  "scan_mode_keys = [''jPointsAreConsecutive'', ''iScansNegatively'', ''jScansPositively'']"

definition add_scan_mode :: "metadata \<Rightarrow> gridspec \<Rightarrow> error + gridspec" where
  "add_scan_mode md d = add md scan_mode_keys d"

definition add_earth :: "metadata \<Rightarrow> gridspec \<Rightarrow> error + gridspec" where
  "add_earth md d =
     add md [''shapeOfTheEarth'', ''radius'', ''earthMajorAxis'', ''earthMinorAxis''] d"

text \<open>
  \<^verbatim>\<open>LatLonGridSpecMaker._get_grid\<close> (inherited by the rotated class): an explicit increment
  key wins; otherwise the increment is the coordinate range over the point count minus one,
  and a single point gives \<open>1.0\<close>.
\<close>

definition LatLon_get_grid :: "metadata \<Rightarrow> error + (pyval \<times> pyval)" where
  "LatLon_get_grid md =
     (let dx = md_get md ''iDirectionIncrementInDegrees'';
          dy = md_get md ''jDirectionIncrementInDegrees'' in
      and_then
        (if dx = PNone then
           and_then (get_first_valid md [''numberOfPointsAlongAParallel'', ''Ni'']
                       ''number of points in longitude'') (\<lambda>nx.
           and_then (py_sub (last_lon md) (first_lon md)) (\<lambda>lon_range.
             if py_eq nx (PInt 1) then Inr (PFloat 1)
             else and_then (py_sub nx (PFloat 1)) (\<lambda>den. py_truediv lon_range den)))
         else Inr dx) (\<lambda>dx.
      and_then
        (if dy = PNone then
           and_then (get_first_valid md [''numberOfPointsAlongAMeridian'', ''Nj'']
                       ''number of points in latitude'') (\<lambda>ny.
           and_then (py_sub (last_lat md) (first_lat md)) (\<lambda>lat_range.
             if py_eq ny (PInt 1) then Inr (PFloat 1)
             else and_then (py_sub ny (PFloat 1)) (\<lambda>den. py_truediv lat_range den)))
         else Inr dy) (\<lambda>dy. Inr (dx, dy))))"

definition ReducedLatLon_get_grid :: "metadata \<Rightarrow> error + (pyval \<times> pyval)" where
  "ReducedLatLon_get_grid md =
     (let dy = md_get md ''jDirectionIncrementInDegrees'' in
      and_then
        (if dy = PNone then
           and_then (get_first_valid md [''numberOfPointsAlongAMeridian'', ''Nj'']
                       ''number of points in latitude'') (\<lambda>ny.
           and_then (py_sub (last_lat md) (first_lat md)) (\<lambda>lat_range.
             if py_eq ny (PInt 1) then Inr (PFloat 1)
             else and_then (py_sub ny (PFloat 1)) (\<lambda>den. py_truediv lat_range den)))
         else Inr dy) (\<lambda>dy. Inr (PNone, dy)))"

definition Mercator_get_grid :: "metadata \<Rightarrow> error + (pyval \<times> pyval)" where
  "Mercator_get_grid md = Inr (md_get md ''DiInMetres'', md_get md ''DjInMetres'')"

definition PolarStereographic_get_grid :: "metadata \<Rightarrow> error + (pyval \<times> pyval)" where
  "PolarStereographic_get_grid md = Inr (md_get md ''DxInMetres'', md_get md ''DyInMetres'')"

definition Lambert_get_grid :: "metadata \<Rightarrow> error + (pyval \<times> pyval)" where
  "Lambert_get_grid md = Inr (md_get md ''DxInMetres'', md_get md ''DyInMetres'')"

definition LambertAEA_get_grid :: "metadata \<Rightarrow> error + (pyval \<times> pyval)" where
  "LambertAEA_get_grid md =
     and_then (get_first_valid md [''DyInMetres'', ''xDirectionGridLengthInMetres'']
                 ''x grid increment in metres'') (\<lambda>dx.
     and_then (get_first_valid md [''DyInMetres'', ''yDirectionGridLengthInMetres'']
                 ''y grid increment in metres'') (\<lambda>dy. Inr (dx, dy)))"

text \<open>The pair \<^verbatim>\<open>[abs(dx), abs(dy)]\<close>.\<close>

definition abs_pair :: "pyval \<times> pyval \<Rightarrow> error + pyval list" where
  "abs_pair g =
     and_then (py_abs (fst g)) (\<lambda>ax.
     and_then (py_abs (snd g)) (\<lambda>ay. Inr [ax, ay]))"

text \<open>The keys each projection class copies through \<^verbatim>\<open>_add\<close>.\<close>

definition Mercator_keys :: "string list" where
  "Mercator_keys = [''Ni'', ''Nj'', ''LaDInDegrees'', ''orientationOfTheGridInDegrees'']"

definition PolarStereographic_keys :: "string list" where
  "PolarStereographic_keys = [''Nx'', ''Ny'', ''LaDInDegrees'', ''orientationOfTheGridInDegrees'']"

definition Lambert_keys :: "string list" where
  "Lambert_keys =
     [''Nx'', ''Ny'', ''LaDInDegrees'', ''LoVInDegrees'', ''LatIn1InDegrees'', ''LatIn2InDegrees'']"

definition LambertAEA_keys :: "string list" where
  "LambertAEA_keys =
     [''Nx'', ''Ny'', ''standardParallelInDegrees'', ''centralLongitudeInDegrees'']"

text \<open>\<^verbatim>\<open>LatLonGridSpecMaker.make\<close>, also run by the rotated class.\<close>

definition LatLon_make :: "maker \<Rightarrow> metadata \<Rightarrow> error + gridspec" where
  "LatLon_make mk md =
     and_then (LatLon_get_grid md) (\<lambda>g.
     and_then (abs_pair g) (\<lambda>grid.
     and_then (area mk md) (\<lambda>a.
     and_then (add_rotation mk md
                 [''type'' \<mapsto> GVal (PStr (GRID_TYPE mk)),
                  ''grid'' \<mapsto> GList grid,
                  ''area'' \<mapsto> GList a])
       (add_scan_mode md))))"

definition ReducedLatLon_make :: "maker \<Rightarrow> metadata \<Rightarrow> error + gridspec" where
  "ReducedLatLon_make mk md =
     and_then (ReducedLatLon_get_grid md) (\<lambda>g.
     and_then (py_abs (snd g)) (\<lambda>grid.
     and_then (area mk md) (\<lambda>a.
     and_then (add_rotation mk md
                 [''type'' \<mapsto> GVal (PStr (GRID_TYPE mk)),
                  ''grid'' \<mapsto> GVal grid,
                  ''area'' \<mapsto> GList a])
       (add_scan_mode md))))"

text \<open>
  The Gaussian label: \<open>F\<close> for the regular classes; for the reduced classes \<open>O\<close> when
  \<^verbatim>\<open>md.get("isOctahedral", 0) == 1\<close>, else \<open>N\<close>.
\<close>

fun gaussian_label :: "maker \<Rightarrow> metadata \<Rightarrow> string" where
  "gaussian_label ReducedGaussianGridSpecMaker md =
     (if py_eq (md_get_default md ''isOctahedral'' (PInt 0)) (PInt 1) then ''O'' else ''N'')"
| "gaussian_label ReducedRotatedGaussianGridSpecMaker md =
     (if py_eq (md_get_default md ''isOctahedral'' (PInt 0)) (PInt 1) then ''O'' else ''N'')"
| "gaussian_label _ md = ''F''"

definition Gaussian_make :: "maker \<Rightarrow> metadata \<Rightarrow> error + gridspec" where
  "Gaussian_make mk md =
     (let N = md_get md ''N'';
          global_grid = py_eq (md_get_default md ''global'' (PInt 0)) (PInt 1);
          d = [''type'' \<mapsto> GVal (PStr (GRID_TYPE mk)),
               ''grid'' \<mapsto> GFmt (gaussian_label mk md) N] in
      and_then
        (if \<not> global_grid then and_then (area mk md) (\<lambda>a. Inr (d(''area'' \<mapsto> GList a)))
         else Inr d) (\<lambda>d.
      and_then (add_rotation mk md d) (add_scan_mode md)))"

definition Mercator_make :: "maker \<Rightarrow> metadata \<Rightarrow> error + gridspec" where
  "Mercator_make mk md =
     and_then (Mercator_get_grid md) (\<lambda>g.
     and_then (abs_pair g) (\<lambda>grid.
     and_then (area mk md) (\<lambda>a.
     and_then (add md Mercator_keys
                 [''type'' \<mapsto> GVal (PStr (GRID_TYPE mk)),
                  ''grid'' \<mapsto> GList grid,
                  ''area'' \<mapsto> GList a])
       (add_scan_mode md))))"

definition PolarStereographic_make :: "maker \<Rightarrow> metadata \<Rightarrow> error + gridspec" where
  "PolarStereographic_make mk md =
     and_then (PolarStereographic_get_grid md) (\<lambda>g.
     and_then (abs_pair g) (\<lambda>grid.
     and_then (add md PolarStereographic_keys
                 [''type'' \<mapsto> GVal (PStr (GRID_TYPE mk)),
                  ''grid'' \<mapsto> GList grid,
                  ''first_point'' \<mapsto> GList [first_lat md, first_lon md]])
       (add_scan_mode md)))"

definition Lambert_make :: "maker \<Rightarrow> metadata \<Rightarrow> error + gridspec" where
  "Lambert_make mk md =
     and_then (Lambert_get_grid md) (\<lambda>g.
     and_then (abs_pair g) (\<lambda>grid.
     and_then (add md Lambert_keys
                 [''type'' \<mapsto> GVal (PStr (GRID_TYPE mk)),
                  ''grid'' \<mapsto> GList grid,
                  ''first_point'' \<mapsto> GList [first_lat md, first_lon md]])
       (add_scan_mode md)))"

definition LambertAEA_make :: "maker \<Rightarrow> metadata \<Rightarrow> error + gridspec" where
  "LambertAEA_make mk md =
     and_then (LambertAEA_get_grid md) (\<lambda>g.
     and_then (abs_pair g) (\<lambda>grid.
     and_then (add md LambertAEA_keys
                 [''type'' \<mapsto> GVal (PStr (GRID_TYPE mk)),
                  ''grid'' \<mapsto> GList grid,
                  ''first_point'' \<mapsto> GList [first_lat md, first_lon md]])
       (add_scan_mode md)))"

text \<open>
  Method resolution of \<^verbatim>\<open>make\<close> over the class hierarchy; the result is the dict \<open>d\<close>.
\<close>

fun make_dict :: "maker \<Rightarrow> metadata \<Rightarrow> error + gridspec" where
  "make_dict LatLonGridSpecMaker md = LatLon_make LatLonGridSpecMaker md"
| "make_dict ReducedLatLonGridSpecMaker md = ReducedLatLon_make ReducedLatLonGridSpecMaker md"
| "make_dict RotatedLatLonGridSpecMaker md = LatLon_make RotatedLatLonGridSpecMaker md"
| "make_dict RegularGaussianGridSpecMaker md = Gaussian_make RegularGaussianGridSpecMaker md"
| "make_dict ReducedGaussianGridSpecMaker md = Gaussian_make ReducedGaussianGridSpecMaker md"
| "make_dict RegularRotatedGaussianGridSpecMaker md =
     Gaussian_make RegularRotatedGaussianGridSpecMaker md"
| "make_dict ReducedRotatedGaussianGridSpecMaker md =
     Gaussian_make ReducedRotatedGaussianGridSpecMaker md"
| "make_dict MercatorGridSpecMaker md = Mercator_make MercatorGridSpecMaker md"
| "make_dict PolarStereographicGridSpecMaker md =
     PolarStereographic_make PolarStereographicGridSpecMaker md"
| "make_dict LambertGridSpecMaker md = Lambert_make LambertGridSpecMaker md"
| "make_dict LambertAEAGridSpecMaker md = LambertAEA_make LambertAEAGridSpecMaker md"

text \<open>
  The constructors: the Gaussian base class checks its label, then the common base class
  asserts that the metadata's \<open>gridType\<close> is the class's own tag.
\<close>

definition maker_init :: "maker \<Rightarrow> metadata \<Rightarrow> error + unit" where
  "maker_init mk md =
     (if is_gaussian mk \<and> gaussian_label mk md \<notin> set [''F'', ''N'', ''O'']
      then Inl (ValueError ''Invalid Gaussian grid label={label}'')
      else if py_eq (md_get md ''gridType'') (PStr (GRID_TYPE mk)) then Inr ()
      else Inl AssertionError)"

text \<open>The registry \<^verbatim>\<open>grid_specs\<close>, filled by the loop at the end of the module.\<close>

definition makers :: "maker list" where
  "makers =
     [LatLonGridSpecMaker,
      ReducedLatLonGridSpecMaker,
      RotatedLatLonGridSpecMaker,
      RegularGaussianGridSpecMaker,
      ReducedGaussianGridSpecMaker,
      RegularRotatedGaussianGridSpecMaker,
      ReducedRotatedGaussianGridSpecMaker,
      MercatorGridSpecMaker,
      PolarStereographicGridSpecMaker,
      LambertGridSpecMaker,
      LambertAEAGridSpecMaker]"

definition grid_specs :: "string \<rightharpoonup> maker" where
  "grid_specs = fold (\<lambda>g m. m(GRID_TYPE g \<mapsto> g)) makers Map.empty"

text \<open>\<^verbatim>\<open>grid_type in grid_specs\<close> and \<^verbatim>\<open>grid_specs[grid_type]\<close>: only a string can be a key.\<close>

fun registered :: "pyval \<Rightarrow> maker option" where
  "registered (PStr s) = grid_specs s"
| "registered _ = None"

text \<open>
  \<^verbatim>\<open>make_gridspec\<close>. The class \<^verbatim>\<open>GridSpec\<close> wraps the dict it is given; the result is that
  dict.
\<close>

definition make_gridspec :: "metadata \<Rightarrow> error + gridspec" where
  "make_gridspec md =
     (let grid_type = md_get md ''gridType'' in
      case registered grid_type of
        Some mk \<Rightarrow> and_then (maker_init mk md) (\<lambda>u. make_dict mk md)
      | None \<Rightarrow> Inl (UnsupportedGridType grid_type))"

section \<open>metadata.py: the geography accessor\<close>

text \<open>
  \<^verbatim>\<open>GribFieldGeography.shape\<close>: the tuple \<open>(Nj, Ni)\<close>, or the one-element tuple of the total
  point count when either count is absent or holds the missing-value sentinel.
\<close>

definition shape :: "metadata \<Rightarrow> pyval list" where
  "shape md =
     (let Nj = missing_is_none (md_get md ''Nj'');
          Ni = missing_is_none (md_get md ''Ni'') in
      if Ni = PNone \<or> Nj = PNone then [md_get md ''numberOfDataPoints'']
      else [Nj, Ni])"

section \<open>metadata.py: namespaces and the restricted view\<close>

text \<open>A Python dict with string keys, in insertion order.\<close>

type_synonym pydict = "(string \<times> pyval) list"

definition dict_del :: "string \<Rightarrow> (string \<times> 'v) list \<Rightarrow> (string \<times> 'v) list" where
  "dict_del k r = filter (\<lambda>kv. fst kv \<noteq> k) r"

definition NAMESPACES :: "string list" where
  "NAMESPACES =
     [''default'', ''ls'', ''geography'', ''mars'', ''parameter'', ''statistics'', ''time'',
      ''vertical'']"

text \<open>
  \<^verbatim>\<open>GribMetadata.as_namespace\<close>. The handle's own \<^verbatim>\<open>as_namespace\<close> belongs to the key store
  and is the parameter \<open>handle_ns\<close>: the key/value dict of a namespace, \<open>None\<close> being all
  keys. The argument is any Python value; anything but a string or \<^verbatim>\<open>None\<close> raises. The
  namespaces \<open>default\<close> and the empty string stand for \<^verbatim>\<open>None\<close>.
\<close>

fun GribMetadata_as_namespace ::
  "(string option \<Rightarrow> pydict) \<Rightarrow> pyval \<Rightarrow> error + pydict" where
  "GribMetadata_as_namespace handle_ns (PStr namespace) =
     (if namespace = ''default'' \<or> namespace = [] then Inr (handle_ns None)
      else Inr (handle_ns (Some namespace)))"
| "GribMetadata_as_namespace handle_ns PNone = Inr (handle_ns None)"
| "GribMetadata_as_namespace handle_ns _ = Inl TypeError"

definition GribMetadata_namespaces :: "string list" where
  "GribMetadata_namespaces = NAMESPACES"

text \<open>
  The argument \<open>namespace\<close> of \<^verbatim>\<open>dump\<close>: the builtin \<^verbatim>\<open>all\<close> (the default), one value, or a
  list or tuple of values.
\<close>

datatype ns_arg = NsAll | NsOne pyval | NsMany "pyval list"

text \<open>One entry of the list \<open>r\<close> built by \<^verbatim>\<open>dump\<close>; the tooltip is kept as the namespace it quotes.\<close>

record ns_group =
  title :: string
  data :: pydict
  tooltip :: pyval

text \<open>\<^verbatim>\<open>ns if ns else "default"\<close>.\<close>

fun group_title :: "pyval \<Rightarrow> string" where
  "group_title (PStr ns) = (if ns = [] then ''default'' else ns)"
| "group_title _ = ''default''"

text \<open>The loop of \<^verbatim>\<open>GribMetadata.dump\<close> over the namespaces, appending the non-empty ones.\<close>

fun dump_loop ::
  "(string option \<Rightarrow> pydict) \<Rightarrow> pyval list \<Rightarrow> ns_group list \<Rightarrow> error + ns_group list" where
  "dump_loop handle_ns [] r = Inr r"
| "dump_loop handle_ns (ns # rest) r =
     and_then (GribMetadata_as_namespace handle_ns ns) (\<lambda>v.
       dump_loop handle_ns rest
         (if v \<noteq> [] then r @ [\<lparr>title = group_title ns, data = v, tooltip = ns\<rparr>] else r))"

text \<open>
  \<^verbatim>\<open>GribMetadata.dump\<close>: the result is the list \<open>r\<close> handed to \<^verbatim>\<open>format_namespace_dump\<close>, which
  only renders it. A single value that is not a string is iterated as it is, which raises
  for \<^verbatim>\<open>None\<close> and for a number.
\<close>

fun GribMetadata_dump ::
  "(string option \<Rightarrow> pydict) \<Rightarrow> ns_arg \<Rightarrow> error + ns_group list" where
  "GribMetadata_dump handle_ns NsAll =
     dump_loop handle_ns (map PStr GribMetadata_namespaces) []"
| "GribMetadata_dump handle_ns (NsOne (PStr namespace)) =
     dump_loop handle_ns [PStr namespace] []"
| "GribMetadata_dump handle_ns (NsOne _) = Inl TypeError"
| "GribMetadata_dump handle_ns (NsMany namespaces) = dump_loop handle_ns namespaces []"

text \<open>The class attributes of \<^verbatim>\<open>RestrictedGribMetadata\<close>.\<close>

definition EKD_NAMESPACE :: string where
  "EKD_NAMESPACE = ''grib''"

definition INTERNAL_KEYS :: "string list" where
  "INTERNAL_KEYS =
     [''minimum'', ''maximum'', ''average'', ''standardDeviation'', ''skewness'', ''kurtosis'',
      ''min'', ''max'', ''avg'', ''sd'', ''skew'', ''kurt'', ''const'', ''isConstant'',
      ''numberOfMissing'', ''numberOfCodedValues'', ''bitmapPresent'', ''offsetValuesBy'',
      ''packingError'', ''referenceValue'', ''referenceValueError'', ''unpackedError'',
      ''values'', ''latLonValues'']"

definition INTERNAL_NAMESPACES :: "string list" where
  "INTERNAL_NAMESPACES = [''statistics'']"

text \<open>\<^verbatim>\<open>key.partition(".")\<close>: the text before the first dot, the dot, the text after it.\<close>

fun partition_dot :: "string \<Rightarrow> string \<times> string \<times> string" where
  "partition_dot [] = ([], [], [])"
| "partition_dot (c # cs) =
     (if c = CHR ''.'' then ([], ''.'', cs)
      else (case partition_dot cs of (before, sep, rest) \<Rightarrow> (c # before, sep, rest)))"

text \<open>\<^verbatim>\<open>RestrictedGribMetadata._is_hidden\<close>, \<open>hidden\<close> being \<^verbatim>\<open>self.hidden\<close>.\<close>

definition is_hidden :: "string list \<Rightarrow> string \<Rightarrow> bool" where
  "is_hidden hidden key =
     (case partition_dot key of (ns, sep, name) \<Rightarrow>
        (let name' = (if name = [] then key else name);
             ns' = (if name = [] then [] else ns) in
         if ns' = EKD_NAMESPACE then False else name' \<in> set hidden))"

text \<open>
  \<^verbatim>\<open>RestrictedGribMetadata.get\<close>. The call
  \<^verbatim>\<open>super().get(key, default=default, astype=astype, raise_on_missing=raise_on_missing)\<close>
  goes to \<^verbatim>\<open>WrappedMetadata.get\<close>, the parameter \<open>super_get\<close>.
\<close>

definition RestrictedGribMetadata_get ::
  "(string \<Rightarrow> pyval \<Rightarrow> 't \<Rightarrow> bool \<Rightarrow> 'r) \<Rightarrow> string \<Rightarrow> pyval \<Rightarrow> 't \<Rightarrow> bool \<Rightarrow> 'r" where
  "RestrictedGribMetadata_get super_get key dflt astype raise_on_missing =
     (case partition_dot key of (ns, sep, name) \<Rightarrow>
        (let name' = (if name = [] then key else name);
             ns' = (if name = [] then [] else ns);
             key' = (if ns' = EKD_NAMESPACE then name' else key) in
         super_get key' dflt astype raise_on_missing))"

text \<open>
  Modelled from the spec: \<^verbatim>\<open>WrappedMetadata.get\<close> (earthkit.data.core.metadata) is not among
  the source files. Following section 4.5 of the specification, a key that the view's
  \<^verbatim>\<open>_is_hidden\<close> reports hidden behaves as absent (the default, or \<^verbatim>\<open>KeyError\<close> when
  \<open>raise_on_missing\<close> is set); any other key is looked up in the wrapped metadata.
\<close>

definition WrappedMetadata_get ::
  "string list \<Rightarrow> (string \<Rightarrow> pyval \<Rightarrow> 't \<Rightarrow> bool \<Rightarrow> error + pyval) \<Rightarrow>
   string \<Rightarrow> pyval \<Rightarrow> 't \<Rightarrow> bool \<Rightarrow> error + pyval" where
  "WrappedMetadata_get hidden wrapped_get key dflt astype raise_on_missing =
     (if is_hidden hidden key then
        (if raise_on_missing then Inl (KeyError key) else Inr dflt)
      else wrapped_get key dflt astype raise_on_missing)"

text \<open>\<^verbatim>\<open>RestrictedGribMetadata.namespaces\<close> over the wrapped metadata's \<^verbatim>\<open>namespaces()\<close>.\<close>

definition RestrictedGribMetadata_namespaces :: "string list" where
  "RestrictedGribMetadata_namespaces =
     (if INTERNAL_NAMESPACES \<noteq> []
      then filter (\<lambda>x. x \<notin> set INTERNAL_NAMESPACES) GribMetadata_namespaces
      else GribMetadata_namespaces)"

text \<open>\<^verbatim>\<open>namespace in self.INTERNAL_NAMESPACES\<close>: only a string can be in the list.\<close>

fun in_internal_namespaces :: "pyval \<Rightarrow> bool" where
  "in_internal_namespaces (PStr ns) = (ns \<in> set INTERNAL_NAMESPACES)"
| "in_internal_namespaces _ = False"

text \<open>
  \<^verbatim>\<open>RestrictedGribMetadata.as_namespace\<close>: the loop over \<^verbatim>\<open>list(r.keys())\<close> deletes every
  internal key from the dict returned by the wrapped metadata.
\<close>

definition RestrictedGribMetadata_as_namespace ::
  "(string option \<Rightarrow> pydict) \<Rightarrow> pyval \<Rightarrow> error + pydict" where
  "RestrictedGribMetadata_as_namespace handle_ns namespace =
     (if in_internal_namespaces namespace then Inr []
      else and_then (GribMetadata_as_namespace handle_ns namespace) (\<lambda>r.
        Inr (fold (\<lambda>k r. if k \<in> set INTERNAL_KEYS then dict_del k r else r)
               (map fst r) r)))"

text \<open>
  \<^verbatim>\<open>RestrictedGribMetadata.dump\<close>: the default \<^verbatim>\<open>all\<close> becomes the view's own namespace list;
  the dump itself is the wrapped metadata's.
\<close>

definition RestrictedGribMetadata_dump ::
  "(string option \<Rightarrow> pydict) \<Rightarrow> ns_arg \<Rightarrow> error + ns_group list" where
  "RestrictedGribMetadata_dump handle_ns namespace =
     GribMetadata_dump handle_ns
       (if namespace = NsAll then NsMany (map PStr RestrictedGribMetadata_namespaces)
        else namespace)"

section \<open>metadata.py: handles and override\<close>

text \<open>
  A GRIB handle holds the keys of one message and its value buffer. Handles are objects
  with identity: the store is the list of all handles allocated so far, and a handle's
  address is its index. A metadata facade refers to its handle by address: the facade of a
  field borrows the field's handle, a standalone facade owns its own.
\<close>

record handle =
  hkeys :: "string \<rightharpoonup> pyval"
  hvalues :: "real list"

type_synonym store = "handle list"

datatype grib_metadata = GribFieldMetadata nat | StandAloneGribMetadata nat

text \<open>The property \<^verbatim>\<open>_handle\<close> of both classes.\<close>

fun handle_of :: "grib_metadata \<Rightarrow> nat" where
  "handle_of (GribFieldMetadata a) = a"
| "handle_of (StandAloneGribMetadata a) = a"

text \<open>
  The patch given to \<^verbatim>\<open>override\<close> is a dict whose values are key values, except under the
  reserved key \<open>gridspec\<close>, which holds a GridSpec.
\<close>

datatype patchval = PV pyval | PGridSpec gridspec

type_synonym patch = "(string \<times> patchval) list"

text \<open>\<^verbatim>\<open>d[k] = v\<close> and \<^verbatim>\<open>d.update(other)\<close> on a dict in insertion order.\<close>

fun dict_set :: "string \<Rightarrow> 'v \<Rightarrow> (string \<times> 'v) list \<Rightarrow> (string \<times> 'v) list" where
  "dict_set k v [] = [(k, v)]"
| "dict_set k v ((k', v') # d) = (if k' = k then (k, v) # d else (k', v') # dict_set k v d)"

definition dict_update :: "(string \<times> 'v) list \<Rightarrow> (string \<times> 'v) list \<Rightarrow> (string \<times> 'v) list" where
  "dict_update d other = fold (\<lambda>kv d. dict_set (fst kv) (snd kv) d) other d"

text \<open>
  Modelled from the spec: the handle class (the specification's KeyStore, section 6) is not
  among the source files. Its operations act on the one handle they are called on:
  \<open>ks_clone headers_only h\<close> is the content of the new handle that \<^verbatim>\<open>h.clone(headers_only=...)\<close>
  allocates, and the setters return the handle's new content or raise. What they compute is
  left open.
\<close>

record keystore =
  ks_clone :: "bool \<Rightarrow> handle \<Rightarrow> handle"
  ks_set_long :: "string \<Rightarrow> pyval \<Rightarrow> handle \<Rightarrow> error + handle"
  ks_set_multiple :: "patch \<Rightarrow> handle \<Rightarrow> error + handle"
  ks_set_values :: "real list \<Rightarrow> handle \<Rightarrow> error + handle"

text \<open>
  Modelled from the spec: \<^verbatim>\<open>handle.get(key, default=None)\<close> and \<^verbatim>\<open>self[key]\<close>; the second
  raises \<^verbatim>\<open>KeyError\<close> for an absent key.
\<close>

definition handle_get :: "handle \<Rightarrow> string \<Rightarrow> pyval" where
  "handle_get h key = md_get (hkeys h) key"

definition getitem :: "handle \<Rightarrow> string \<Rightarrow> error + pyval" where
  "getitem h key = (case hkeys h key of None \<Rightarrow> Inl (KeyError key) | Some v \<Rightarrow> Inr v)"

text \<open>\<^verbatim>\<open>GribMetadata._copy_key\<close>, \<open>h\<close> being \<^verbatim>\<open>self._handle\<close>.\<close>

definition copy_key :: "keystore \<Rightarrow> handle \<Rightarrow> handle \<Rightarrow> string \<Rightarrow> error + handle" where
  "copy_key ks h target_handle key =
     (let v_ori = handle_get h key;
          v_new = handle_get target_handle key in
      if v_ori \<noteq> PNone \<and> v_new \<noteq> PNone \<and> \<not> py_eq v_ori v_new
      then ks_set_long ks key v_ori target_handle
      else Inr target_handle)"

text \<open>
  The first part of \<^verbatim>\<open>GribMetadata.override\<close>: pop \<open>gridspec\<close> from the patch and, when it
  is not \<^verbatim>\<open>None\<close>, merge the keys the converter derives from it. The converter
  \<^verbatim>\<open>GridSpecConverter.to_metadata\<close> is not among the source files and is the parameter
  \<open>to_metadata\<close>; it returns the derived keys and the new value size, or raises. The default
  \<^verbatim>\<open>self["edition"]\<close> is evaluated before \<^verbatim>\<open>d.get\<close> is called.
\<close>

definition merge_gridspec ::
  "(patchval \<Rightarrow> patchval \<Rightarrow> error + patch \<times> int option) \<Rightarrow> handle \<Rightarrow> patch \<Rightarrow>
   error + patch \<times> int option" where
  "merge_gridspec to_metadata h d0 =
     (let gridspec = (case map_of d0 ''gridspec'' of None \<Rightarrow> PV PNone | Some g \<Rightarrow> g);
          d = dict_del ''gridspec'' d0 in
      if gridspec \<noteq> PV PNone then
        and_then (getitem h ''edition'') (\<lambda>own_edition.
          (let edition = (case map_of d ''edition'' of None \<Rightarrow> PV own_edition | Some e \<Rightarrow> e) in
           and_then (to_metadata gridspec edition) (\<lambda>r.
             Inr (dict_update d (fst r), snd r))))
      else Inr (d, None))"

text \<open>The second part: the changes made to the clone.\<close>

definition patch_clone ::
  "keystore \<Rightarrow> handle \<Rightarrow> patch \<Rightarrow> int option \<Rightarrow> handle \<Rightarrow> error + handle" where
  "patch_clone ks h d new_value_size clone =
     and_then (if ''bitsPerValue'' \<notin> fst ` set d then copy_key ks h clone ''bitsPerValue''
               else Inr clone) (\<lambda>handle.
     and_then (if d \<noteq> [] then ks_set_multiple ks d handle else Inr handle) (\<lambda>handle.
       (case new_value_size of
          None \<Rightarrow> Inr handle
        | Some n \<Rightarrow>
            if n > 0 then ks_set_values ks (replicate (nat n) 0) handle else Inr handle)))"

text \<open>
  \<^verbatim>\<open>GribMetadata.override\<close> on the store \<open>s\<close>: the result is the store afterwards and the new
  facade, or the exception raised. The clone is allocated at the first free address; when a
  setter raises, the clone stays allocated and nothing refers to it.
\<close>

definition override ::
  "keystore \<Rightarrow> (patchval \<Rightarrow> patchval \<Rightarrow> error + patch \<times> int option) \<Rightarrow> store \<Rightarrow>
   grib_metadata \<Rightarrow> patch \<Rightarrow> bool \<Rightarrow> store \<times> (error + grib_metadata)" where
  "override ks to_metadata s self d0 headers_only_clone =
     (let h = s ! handle_of self in
      case merge_gridspec to_metadata h d0 of
        Inl e \<Rightarrow> (s, Inl e)
      | Inr (d, new_value_size) \<Rightarrow>
          (let clone = ks_clone ks headers_only_clone h in
           case patch_clone ks h d new_value_size clone of
             Inl e \<Rightarrow> (s @ [clone], Inl e)
           | Inr handle \<Rightarrow> (s @ [handle], Inr (StandAloneGribMetadata (length s)))))"

section \<open>Reading a GridSpec back\<close>

text \<open>The keys a maker class copies through \<^verbatim>\<open>_add\<close>, in the order of the calls.\<close>

fun family_keys :: "maker \<Rightarrow> string list" where
  "family_keys MercatorGridSpecMaker = Mercator_keys"
| "family_keys PolarStereographicGridSpecMaker = PolarStereographic_keys"
| "family_keys LambertGridSpecMaker = Lambert_keys"
| "family_keys LambertAEAGridSpecMaker = LambertAEA_keys"
| "family_keys _ = []"

definition copied_keys :: "maker \<Rightarrow> string list" where
  "copied_keys mk =
     (if ROTATED mk then [''angleOfRotationInDegrees''] else []) @ family_keys mk @
     scan_mode_keys"

text \<open>
  Modelled from the spec: \<^verbatim>\<open>GridSpecConverter.to_metadata\<close> is not among the source files.
  Of the reverse conversion the specification fixes that it uses the same vocabulary table
  and the same key set as the makers. \<open>from_gridspec g key\<close> is the value that gives a GRIB
  key: the GridSpec's type tag for \<open>gridType\<close>, and for any other key the entry under the
  key's vocabulary name, \<^verbatim>\<open>None\<close> when there is none.
\<close>

definition from_gridspec :: "gridspec \<Rightarrow> string \<Rightarrow> pyval" where
  "from_gridspec g key =
     (case (if key = ''gridType'' then Some ''type'' else vocabulary key) of
        None \<Rightarrow> PNone
      | Some n \<Rightarrow> (case g n of Some (GVal v) \<Rightarrow> v | _ \<Rightarrow> PNone))"

section \<open>Concrete inputs\<close>

text \<open>
  The regular latitude-longitude field of the specification's scenario: two points on each
  axis, longitudes 0 to 10, latitudes 0 to -10, scanning in the positive i direction.
\<close>

definition md_scenario :: metadata where
  "md_scenario = map_of
     [(''gridType'', PStr ''regular_ll''),
      (''Ni'', PInt 2),
      (''Nj'', PInt 2),
      (''longitudeOfFirstGridPointInDegrees'', PInt 0),
      (''longitudeOfLastGridPointInDegrees'', PInt 10),
      (''latitudeOfFirstGridPointInDegrees'', PInt 0),
      (''latitudeOfLastGridPointInDegrees'', PInt (- 10)),
      (''iScansNegatively'', PInt 0)]"

text \<open>The three-entry GridSpec the scenario names.\<close>

definition gridspec_scenario :: gridspec where
  "gridspec_scenario =
     [''type'' \<mapsto> GVal (PStr ''regular_ll''),
      ''grid'' \<mapsto> GList [PFloat 10, PFloat 10],
      ''area'' \<mapsto> GList [PInt 0, PInt 0, PInt (- 10), PInt 10]]"

text \<open>A regular latitude-longitude field with a single point on each axis.\<close>

definition md_single_point :: metadata where
  "md_single_point = map_of
     [(''gridType'', PStr ''regular_ll''),
      (''Ni'', PInt 1),
      (''Nj'', PInt 1),
      (''longitudeOfFirstGridPointInDegrees'', PInt 5),
      (''longitudeOfLastGridPointInDegrees'', PInt 5),
      (''latitudeOfFirstGridPointInDegrees'', PInt 3),
      (''latitudeOfLastGridPointInDegrees'', PInt 3)]"

text \<open>
  A Lambert azimuthal equal-area field whose x and y increments differ: 2000 m along x,
  3000 m along y.
\<close>

definition md_laea :: metadata where
  "md_laea = map_of
     [(''gridType'', PStr ''lambert_azimuthal_equal_area''),
      (''DxInMetres'', PInt 2000),
      (''DyInMetres'', PInt 3000),
      (''latitudeOfFirstGridPointInDegrees'', PInt 60),
      (''longitudeOfFirstGridPointInDegrees'', PInt 10)]"

text \<open>
  A regular latitude-longitude field whose first point-count key along a parallel holds
  the missing-value sentinel while \<open>Ni\<close> holds the count 3.
\<close>

definition md_sentinel :: metadata where
  "md_sentinel = map_of
     [(''gridType'', PStr ''regular_ll''),
      (''numberOfPointsAlongAParallel'', PInt 2147483647),
      (''Ni'', PInt 3),
      (''Nj'', PInt 2),
      (''longitudeOfFirstGridPointInDegrees'', PInt 0),
      (''longitudeOfLastGridPointInDegrees'', PInt 10),
      (''latitudeOfFirstGridPointInDegrees'', PInt 0),
      (''latitudeOfLastGridPointInDegrees'', PInt (- 10)),
      (''iScansNegatively'', PInt 0)]"

text \<open>
  The namespaces of a handle whose full key set holds the statistics key \<open>minimum\<close> beside
  \<open>shortName\<close>.
\<close>

definition handle_ns_example :: "string option \<Rightarrow> pydict" where
  "handle_ns_example ns =
     (if ns = None then [(''shortName'', PStr ''2t''), (''minimum'', PInt 1)]
      else if ns = Some ''parameter'' then [(''shortName'', PStr ''2t'')]
      else if ns = Some ''statistics'' then [(''minimum'', PInt 1)]
      else [])"

text \<open>The lookup of a standalone metadata object that holds \<open>minimum = 3\<close>.\<close>

definition wrapped_get_example :: "string \<Rightarrow> pyval \<Rightarrow> unit \<Rightarrow> bool \<Rightarrow> error + pyval" where
  "wrapped_get_example key dflt astype raise_on_missing =
     (if key = ''minimum'' then Inr (PInt 3)
      else if raise_on_missing then Inl (KeyError key)
      else Inr dflt)"

text \<open>
  A key store for the examples: a headers-only clone drops the value buffer, the setters
  store what they are given, and a GridSpec is not a key value.
\<close>

definition example_keystore :: keystore where
  "example_keystore =
     \<lparr>ks_clone = (\<lambda>headers_only h. if headers_only then h\<lparr>hvalues := []\<rparr> else h),
      ks_set_long = (\<lambda>k v h. Inr (h\<lparr>hkeys := (hkeys h)(k \<mapsto> v)\<rparr>)),
      ks_set_multiple = (\<lambda>d h.
        fold (\<lambda>kv r. and_then r (\<lambda>h.
                case snd kv of
                  PV v \<Rightarrow> Inr (h\<lparr>hkeys := (hkeys h)(fst kv \<mapsto> v)\<rparr>)
                | PGridSpec g \<Rightarrow> Inl TypeError)) d (Inr h)),
      ks_set_values = (\<lambda>vals h. Inr (h\<lparr>hvalues := vals\<rparr>))\<rparr>"

text \<open>A converter for the examples: it knows no grid type.\<close>

definition example_to_metadata :: "patchval \<Rightarrow> patchval \<Rightarrow> error + patch \<times> int option" where
  "example_to_metadata g edition = Inl (UnsupportedGridType PNone)"

definition example_handle :: handle where
  "example_handle =
     \<lparr>hkeys = [''edition'' \<mapsto> PInt 2, ''shortName'' \<mapsto> PStr ''t'', ''bitsPerValue'' \<mapsto> PInt 16],
      hvalues = [1, 2, 3]\<rparr>"

text \<open>The scenario's field with its first and last latitude exchanged.\<close>

definition md_flipped :: metadata where
  "md_flipped = map_of
     [(''gridType'', PStr ''regular_ll''),
      (''Ni'', PInt 2),
      (''Nj'', PInt 2),
      (''longitudeOfFirstGridPointInDegrees'', PInt 0),
      (''longitudeOfLastGridPointInDegrees'', PInt 10),
      (''latitudeOfFirstGridPointInDegrees'', PInt (- 10)),
      (''latitudeOfLastGridPointInDegrees'', PInt 0),
      (''iScansNegatively'', PInt 0)]"

section \<open>Evaluation rules\<close>

lemmas md_simps =
  md_get_def md_get_default_def first_lon_def last_lon_def first_lat_def last_lat_def

lemmas maker_simps =
  make_gridspec_def grid_specs_def makers_def maker_init_def
  LatLon_make_def ReducedLatLon_make_def Gaussian_make_def Mercator_make_def
  PolarStereographic_make_def Lambert_make_def LambertAEA_make_def
  LatLon_get_grid_def ReducedLatLon_get_grid_def Mercator_get_grid_def
  PolarStereographic_get_grid_def Lambert_get_grid_def LambertAEA_get_grid_def
  Mercator_keys_def PolarStereographic_keys_def Lambert_keys_def LambertAEA_keys_def
  get_first_valid_def abs_pair_def area_def north_def south_def west_def east_def
  x_scan_dir_def py_max_def py_min_def add_rotation_def add_scan_mode_def scan_mode_keys_def
  add_one_def vocabulary_def float_div_def POSITIVE_SCAN_DIR_def NEGATIVE_SCAN_DIR_def

section \<open>Sequencing\<close>

lemma and_then_Inl:
  "and_then a f = Inl e \<longleftrightarrow> a = Inl e \<or> (\<exists>v. a = Inr v \<and> f v = Inl e)"
  by (cases a) auto

lemma and_then_Inr:
  "and_then a f = Inr r \<longleftrightarrow> (\<exists>v. a = Inr v \<and> f v = Inr r)"
  by (cases a) auto

section \<open>Dispatch\<close>

lemma registered_tags:
  "registered v = None \<longleftrightarrow>
     v \<notin> PStr ` {''regular_ll'', ''reduced_ll'', ''rotated_ll'', ''regular_gg'', ''reduced_gg'',
                  ''rotated_gg'', ''reduced_rotated_gg'', ''mercator'', ''polar_stereographic'',
                  ''lambert'', ''lambert_azimuthal_equal_area''}"
  by (cases v) (auto simp: grid_specs_def makers_def)

text \<open>
  Claim C10. When the value of \<open>gridType\<close> (\<^verbatim>\<open>None\<close> when the key is absent) is not one of
  the eleven registered tags, \<open>make_gridspec\<close> raises the unsupported-grid-type error carrying
  that value; the outcome is an error, never a GridSpec.
\<close>

theorem make_gridspec_unsupported:
  assumes "md_get md ''gridType'' \<notin>
     PStr ` {''regular_ll'', ''reduced_ll'', ''rotated_ll'', ''regular_gg'', ''reduced_gg'',
             ''rotated_gg'', ''reduced_rotated_gg'', ''mercator'', ''polar_stereographic'',
             ''lambert'', ''lambert_azimuthal_equal_area''}"
  shows "make_gridspec md = Inl (UnsupportedGridType (md_get md ''gridType''))"
proof -
  from assms have "registered (md_get md ''gridType'') = None"
    using registered_tags by blast
  then show ?thesis
    by (simp add: make_gridspec_def)
qed

theorem make_gridspec_unsupported_witness:
  "make_gridspec Map.empty = Inl (UnsupportedGridType PNone) \<and>
   make_gridspec [''gridType'' \<mapsto> PStr ''sh''] = Inl (UnsupportedGridType (PStr ''sh''))"
  using make_gridspec_unsupported [of Map.empty]
        make_gridspec_unsupported [of "[''gridType'' \<mapsto> PStr ''sh'']"]
  by (simp add: md_get_def md_get_default_def)

section \<open>The regular latitude-longitude scenario\<close>

lemma scenario_eval:
  "make_gridspec md_scenario =
     Inr [''type'' \<mapsto> GVal (PStr ''regular_ll''),
          ''grid'' \<mapsto> GList [PFloat 10, PFloat 10],
          ''area'' \<mapsto> GList [PInt 0, PInt 0, PInt (- 10), PInt 10],
          ''i_scans_negatively'' \<mapsto> GVal (PInt 0)]"
  by (simp add: md_scenario_def maker_simps md_simps)

text \<open>
  Claim C7, as the code has it. For the scenario's metadata \<open>make_gridspec\<close> returns the
  entries \<open>type\<close>, \<open>grid\<close> and \<open>area\<close> the scenario names and, because \<open>iScansNegatively\<close> is
  present, the scan-mode entry \<open>i_scans_negatively = 0\<close> copied by \<^verbatim>\<open>_add_scan_mode\<close>.
\<close>

theorem scenario_gridspec:
  "make_gridspec md_scenario =
     Inr (gridspec_scenario(''i_scans_negatively'' \<mapsto> GVal (PInt 0)))"
  by (simp add: scenario_eval gridspec_scenario_def)

text \<open>The result is not the three-entry GridSpec: it differs at \<open>i_scans_negatively\<close>.\<close>

theorem scenario_gridspec_counterexample:
  "make_gridspec md_scenario \<noteq> Inr gridspec_scenario"
proof
  assume "make_gridspec md_scenario = Inr gridspec_scenario"
  then have "[''type'' \<mapsto> GVal (PStr ''regular_ll''),
          ''grid'' \<mapsto> GList [PFloat 10, PFloat 10],
          ''area'' \<mapsto> GList [PInt 0, PInt 0, PInt (- 10), PInt 10],
          ''i_scans_negatively'' \<mapsto> GVal (PInt 0)] = gridspec_scenario"
    by (simp add: scenario_eval)
  then have "Some (GVal (PInt 0)) = gridspec_scenario ''i_scans_negatively''"
    by (metis fun_upd_same)
  then show False
    by (simp add: gridspec_scenario_def)
qed

section \<open>Scan direction\<close>

text \<open>
  Claim C5. The i-direction scan sign comes from a two-key fallback. When
  \<open>iScansNegatively\<close> is present, it alone decides: 0 gives the positive direction, any other
  value the negative one. When it is absent and \<open>iScansPositively\<close> is present, that key
  decides: 1 gives the positive direction, any other value the negative one. When both are
  absent, the cannot-determine-scan-direction error is raised.
\<close>

theorem x_scan_dir_fallback:
  "(md_get md ''iScansNegatively'' \<noteq> PNone \<longrightarrow>
      x_scan_dir md =
        Inr (if py_eq (md_get md ''iScansNegatively'') (PInt 0)
             then POSITIVE_SCAN_DIR else NEGATIVE_SCAN_DIR)) \<and>
   (md_get md ''iScansNegatively'' = PNone \<and> md_get md ''iScansPositively'' \<noteq> PNone \<longrightarrow>
      x_scan_dir md =
        Inr (if py_eq (md_get md ''iScansPositively'') (PInt 1)
             then POSITIVE_SCAN_DIR else NEGATIVE_SCAN_DIR)) \<and>
   (md_get md ''iScansNegatively'' = PNone \<and> md_get md ''iScansPositively'' = PNone \<longrightarrow>
      x_scan_dir md = Inl (ValueError ''Could not determine i-direction scanning mode''))"
  by (simp add: x_scan_dir_def Let_def)

theorem x_scan_dir_fallback_witness:
  "x_scan_dir [''iScansNegatively'' \<mapsto> PInt 0, ''iScansPositively'' \<mapsto> PInt 0] = Inr 1 \<and>
   x_scan_dir [''iScansNegatively'' \<mapsto> PInt 1, ''iScansPositively'' \<mapsto> PInt 1] = Inr (- 1) \<and>
   x_scan_dir [''iScansPositively'' \<mapsto> PInt 1] = Inr 1 \<and>
   x_scan_dir [''iScansPositively'' \<mapsto> PInt 0] = Inr (- 1) \<and>
   x_scan_dir Map.empty = Inl (ValueError ''Could not determine i-direction scanning mode'')"
  using x_scan_dir_fallback [of "[''iScansNegatively'' \<mapsto> PInt 0, ''iScansPositively'' \<mapsto> PInt 0]"]
        x_scan_dir_fallback [of "[''iScansNegatively'' \<mapsto> PInt 1, ''iScansPositively'' \<mapsto> PInt 1]"]
        x_scan_dir_fallback [of "[''iScansPositively'' \<mapsto> PInt 1]"]
        x_scan_dir_fallback [of "[''iScansPositively'' \<mapsto> PInt 0]"]
        x_scan_dir_fallback [of Map.empty]
  by (simp add: md_get_def md_get_default_def POSITIVE_SCAN_DIR_def NEGATIVE_SCAN_DIR_def)

section \<open>Increment derivation of the latitude-longitude classes\<close>

lemma py_sub_numeric:
  "py_sub a b = Inr r \<Longrightarrow> (\<exists>i. r = PInt i) \<or> (\<exists>x. r = PFloat x)"
  by (cases a; cases b) auto

lemma increment_no_zero_division:
  assumes "py_sub a b = Inr r" and "\<not> py_eq n (PInt 1)"
  shows "and_then (py_sub n (PFloat 1)) (\<lambda>den. py_truediv r den) \<noteq> Inl ZeroDivisionError"
proof -
  from assms(1) consider i where "r = PInt i" | x where "r = PFloat x"
    using py_sub_numeric by blast
  then show ?thesis
  proof cases
    case 1
    then show ?thesis
      using assms(2) by (cases n) (auto simp: float_div_def)
  next
    case 2
    then show ?thesis
      using assms(2) by (cases n) (auto simp: float_div_def)
  qed
qed

lemma axis_no_zero_division:
  "and_then (get_first_valid md ks desc) (\<lambda>n.
   and_then (py_sub a b) (\<lambda>rng.
     if py_eq n (PInt 1) then Inr (PFloat 1)
     else and_then (py_sub n (PFloat 1)) (\<lambda>den. py_truediv rng den)))
   \<noteq> Inl ZeroDivisionError"
proof (cases "get_first_valid md ks desc")
  case (Inl e)
  then show ?thesis
    by (auto simp: get_first_valid_def split: option.splits if_splits)
next
  case fv: (Inr n)
  show ?thesis
  proof (cases "py_sub a b")
    case (Inl e)
    then show ?thesis
      using fv by (cases a; cases b) auto
  next
    case (Inr rng)
    then show ?thesis
      using fv increment_no_zero_division [OF Inr] by auto
  qed
qed

lemma LatLon_get_grid_no_zero_division:
  "LatLon_get_grid md \<noteq> Inl ZeroDivisionError"
  using axis_no_zero_division [of md "[''numberOfPointsAlongAParallel'', ''Ni'']"
          "''number of points in longitude''" "last_lon md" "first_lon md"]
        axis_no_zero_division [of md "[''numberOfPointsAlongAMeridian'', ''Nj'']"
          "''number of points in latitude''" "last_lat md" "first_lat md"]
  by (simp add: LatLon_get_grid_def Let_def and_then_Inl)

lemma ReducedLatLon_get_grid_no_zero_division:
  "ReducedLatLon_get_grid md \<noteq> Inl ZeroDivisionError"
  using axis_no_zero_division [of md "[''numberOfPointsAlongAMeridian'', ''Nj'']"
          "''number of points in latitude''" "last_lat md" "first_lat md"]
  by (simp add: ReducedLatLon_get_grid_def Let_def and_then_Inl)

lemma LatLon_single_x:
  assumes "md_get md ''iDirectionIncrementInDegrees'' = PNone"
    and "get_first_valid md [''numberOfPointsAlongAParallel'', ''Ni'']
           ''number of points in longitude'' = Inr nx"
    and "py_eq nx (PInt 1)"
    and "LatLon_get_grid md = Inr (dx, dy)"
  shows "dx = PFloat 1"
  using assms by (auto simp: LatLon_get_grid_def Let_def and_then_Inr)

lemma LatLon_single_y:
  assumes "md_get md ''jDirectionIncrementInDegrees'' = PNone"
    and "get_first_valid md [''numberOfPointsAlongAMeridian'', ''Nj'']
           ''number of points in latitude'' = Inr ny"
    and "py_eq ny (PInt 1)"
    and "LatLon_get_grid md = Inr (dx, dy)"
  shows "dy = PFloat 1"
  using assms by (auto simp: LatLon_get_grid_def Let_def and_then_Inr split: if_splits)

lemma ReducedLatLon_single_y:
  assumes "md_get md ''jDirectionIncrementInDegrees'' = PNone"
    and "get_first_valid md [''numberOfPointsAlongAMeridian'', ''Nj'']
           ''number of points in latitude'' = Inr ny"
    and "py_eq ny (PInt 1)"
    and "ReducedLatLon_get_grid md = Inr (dx, dy)"
  shows "dy = PFloat 1"
  using assms by (auto simp: ReducedLatLon_get_grid_def Let_def and_then_Inr)

lemma single_point_returns:
  assumes "md_get md ''iDirectionIncrementInDegrees'' = PNone"
    and "get_first_valid md [''numberOfPointsAlongAParallel'', ''Ni'']
           ''number of points in longitude'' = Inr nx"
    and "py_eq nx (PInt 1)"
    and "py_sub (last_lon md) (first_lon md) = Inr rx"
    and "md_get md ''jDirectionIncrementInDegrees'' = PNone"
    and "get_first_valid md [''numberOfPointsAlongAMeridian'', ''Nj'']
           ''number of points in latitude'' = Inr ny"
    and "py_eq ny (PInt 1)"
    and "py_sub (last_lat md) (first_lat md) = Inr ry"
  shows "LatLon_get_grid md = Inr (PFloat 1, PFloat 1) \<and>
         ReducedLatLon_get_grid md = Inr (PNone, PFloat 1)"
  using assms by (simp add: LatLon_get_grid_def ReducedLatLon_get_grid_def Let_def)

text \<open>
  Claim C9. \<open>LatLon_get_grid\<close> serves the regular and the rotated class,
  \<open>ReducedLatLon_get_grid\<close> the reduced one. Neither ever raises a division by zero. With no
  explicit increment key and a point count equal to 1 along an axis, the increment returned
  for that axis is \<open>1.0\<close>; and the call does return when the coordinate ranges can be
  computed.
\<close>

theorem single_point_axis:
  "LatLon_get_grid md \<noteq> Inl ZeroDivisionError \<and>
   ReducedLatLon_get_grid md \<noteq> Inl ZeroDivisionError \<and>
   (md_get md ''iDirectionIncrementInDegrees'' = PNone \<and>
    get_first_valid md [''numberOfPointsAlongAParallel'', ''Ni'']
      ''number of points in longitude'' = Inr nx \<and>
    py_eq nx (PInt 1) \<longrightarrow>
      (LatLon_get_grid md = Inr (dx, dy) \<longrightarrow> dx = PFloat 1)) \<and>
   (md_get md ''jDirectionIncrementInDegrees'' = PNone \<and>
    get_first_valid md [''numberOfPointsAlongAMeridian'', ''Nj'']
      ''number of points in latitude'' = Inr ny \<and>
    py_eq ny (PInt 1) \<longrightarrow>
      (LatLon_get_grid md = Inr (dx, dy) \<longrightarrow> dy = PFloat 1) \<and>
      (ReducedLatLon_get_grid md = Inr (dx', dy') \<longrightarrow> dy' = PFloat 1)) \<and>
   (md_get md ''iDirectionIncrementInDegrees'' = PNone \<and>
    get_first_valid md [''numberOfPointsAlongAParallel'', ''Ni'']
      ''number of points in longitude'' = Inr nx \<and>
    py_eq nx (PInt 1) \<and>
    py_sub (last_lon md) (first_lon md) = Inr rx \<and>
    md_get md ''jDirectionIncrementInDegrees'' = PNone \<and>
    get_first_valid md [''numberOfPointsAlongAMeridian'', ''Nj'']
      ''number of points in latitude'' = Inr ny \<and>
    py_eq ny (PInt 1) \<and>
    py_sub (last_lat md) (first_lat md) = Inr ry \<longrightarrow>
      LatLon_get_grid md = Inr (PFloat 1, PFloat 1) \<and>
      ReducedLatLon_get_grid md = Inr (PNone, PFloat 1))"
proof (intro conjI impI)
  show "LatLon_get_grid md \<noteq> Inl ZeroDivisionError"
    by (rule LatLon_get_grid_no_zero_division)
  show "ReducedLatLon_get_grid md \<noteq> Inl ZeroDivisionError"
    by (rule ReducedLatLon_get_grid_no_zero_division)
next
  assume "md_get md ''iDirectionIncrementInDegrees'' = PNone \<and>
    get_first_valid md [''numberOfPointsAlongAParallel'', ''Ni'']
      ''number of points in longitude'' = Inr nx \<and>
    py_eq nx (PInt 1)"
    and "LatLon_get_grid md = Inr (dx, dy)"
  then show "dx = PFloat 1"
    using LatLon_single_x by blast
next
  assume "md_get md ''jDirectionIncrementInDegrees'' = PNone \<and>
    get_first_valid md [''numberOfPointsAlongAMeridian'', ''Nj'']
      ''number of points in latitude'' = Inr ny \<and>
    py_eq ny (PInt 1)"
    and "LatLon_get_grid md = Inr (dx, dy)"
  then show "dy = PFloat 1"
    using LatLon_single_y by blast
next
  assume "md_get md ''jDirectionIncrementInDegrees'' = PNone \<and>
    get_first_valid md [''numberOfPointsAlongAMeridian'', ''Nj'']
      ''number of points in latitude'' = Inr ny \<and>
    py_eq ny (PInt 1)"
    and "ReducedLatLon_get_grid md = Inr (dx', dy')"
  then show "dy' = PFloat 1"
    using ReducedLatLon_single_y by blast
next
  assume h: "md_get md ''iDirectionIncrementInDegrees'' = PNone \<and>
    get_first_valid md [''numberOfPointsAlongAParallel'', ''Ni'']
      ''number of points in longitude'' = Inr nx \<and>
    py_eq nx (PInt 1) \<and>
    py_sub (last_lon md) (first_lon md) = Inr rx \<and>
    md_get md ''jDirectionIncrementInDegrees'' = PNone \<and>
    get_first_valid md [''numberOfPointsAlongAMeridian'', ''Nj'']
      ''number of points in latitude'' = Inr ny \<and>
    py_eq ny (PInt 1) \<and>
    py_sub (last_lat md) (first_lat md) = Inr ry"
  then have "LatLon_get_grid md = Inr (PFloat 1, PFloat 1) \<and>
      ReducedLatLon_get_grid md = Inr (PNone, PFloat 1)"
    using single_point_returns by blast
  then show "LatLon_get_grid md = Inr (PFloat 1, PFloat 1)"
    and "ReducedLatLon_get_grid md = Inr (PNone, PFloat 1)"
    by simp_all
qed

theorem single_point_axis_witness:
  "LatLon_get_grid md_single_point = Inr (PFloat 1, PFloat 1) \<and>
   ReducedLatLon_get_grid md_single_point = Inr (PNone, PFloat 1) \<and>
   LatLon_get_grid md_single_point \<noteq> Inl ZeroDivisionError"
  using single_point_axis [of md_single_point "PInt 1" "PFloat 1" "PFloat 1" "PInt 1"
          PNone "PFloat 1" "PInt 0" "PInt 0"]
  by (simp add: md_single_point_def md_simps get_first_valid_def)

section \<open>Lambert azimuthal equal-area increments\<close>

lemma LambertAEA_get_grid_reads_Dy:
  "md_get md ''DyInMetres'' \<noteq> PNone \<Longrightarrow>
   LambertAEA_get_grid md = Inr (md_get md ''DyInMetres'', md_get md ''DyInMetres'')"
  by (simp add: LambertAEA_get_grid_def get_first_valid_def)

text \<open>
  Claim C8, at a field with \<open>DxInMetres = 2000\<close> and \<open>DyInMetres = 3000\<close>: the x increment of
  the GridSpec is read from \<open>DyInMetres\<close>, the first key of both lookups, so \<open>grid\<close> is
  \<open>[3000, 3000]\<close> and not \<open>[2000, 3000]\<close>.
\<close>

theorem laea_grid_reads_dy_for_dx:
  "make_gridspec md_laea =
     Inr [''type'' \<mapsto> GVal (PStr ''lambert_azimuthal_equal_area''),
          ''grid'' \<mapsto> GList [PInt 3000, PInt 3000],
          ''first_point'' \<mapsto> GList [PInt 60, PInt 10]]"
  by (simp add: md_laea_def maker_simps md_simps)

section \<open>The missing-value sentinel in the point-count lookups\<close>

text \<open>
  \<open>shape\<close> applies the sentinel: a sentinel in \<open>Ni\<close> or \<open>Nj\<close> gives the one-element
  fallback. \<open>get_first_valid\<close> tests only for \<^verbatim>\<open>None\<close>: the first key that is present
  wins, whatever its value.
\<close>

lemma shape_sentinel:
  "py_eq (md_get md ''Ni'') (PInt 2147483647) \<or> py_eq (md_get md ''Nj'') (PInt 2147483647)
   \<Longrightarrow> shape md = [md_get md ''numberOfDataPoints'']"
  by (auto simp: shape_def missing_is_none_def Let_def)

lemma shape_structured:
  "md_get md ''Ni'' = PInt ni \<Longrightarrow> md_get md ''Nj'' = PInt nj \<Longrightarrow>
   ni \<noteq> 2147483647 \<Longrightarrow> nj \<noteq> 2147483647 \<Longrightarrow> shape md = [PInt nj, PInt ni]"
  by (simp add: shape_def missing_is_none_def)

lemma get_first_valid_first_present:
  "md_get md k \<noteq> PNone \<Longrightarrow> get_first_valid md (k # ks) desc = Inr (md_get md k)"
  by (simp add: get_first_valid_def)

text \<open>
  Claim C4, the GridSpec half, at a field whose \<open>numberOfPointsAlongAParallel\<close> is the
  sentinel 2147483647 and whose \<open>Ni\<close> is 3: the lookup returns the sentinel as the point
  count, and the x increment is the longitude range over 2147483646 instead of the 5.0 that
  \<open>Ni\<close> gives.
\<close>

theorem first_valid_keeps_sentinel:
  "get_first_valid md_sentinel [''numberOfPointsAlongAParallel'', ''Ni'']
     ''number of points in longitude'' = Inr (PInt 2147483647) \<and>
   LatLon_get_grid md_sentinel = Inr (PFloat (10 / 2147483646), PFloat (- 10))"
  by (simp add: md_sentinel_def md_simps LatLon_get_grid_def get_first_valid_def float_div_def)

section \<open>The restricted view: key lookup\<close>

lemma partition_dot_no_dot:
  "CHR ''.'' \<notin> set k \<Longrightarrow> partition_dot k = (k, [], [])"
  by (induction k) auto

lemma partition_dot_prefix:
  "CHR ''.'' \<notin> set p \<Longrightarrow> partition_dot (p @ CHR ''.'' # k) = (p, ''.'', k)"
  by (induction p) auto

lemma restricted_get_strips_prefix:
  assumes "CHR ''.'' \<notin> set k" and "k \<noteq> []"
  shows "RestrictedGribMetadata_get super_get (''grib.'' @ k) dflt astype rom =
         super_get k dflt astype rom"
proof -
  have "partition_dot (''grib.'' @ k) = (''grib'', ''.'', k)"
    using partition_dot_prefix [of "''grib''" k] by simp
  then show ?thesis
    using assms(2) by (simp add: RestrictedGribMetadata_get_def EKD_NAMESPACE_def Let_def)
qed

lemma restricted_get_plain:
  assumes "CHR ''.'' \<notin> set k"
  shows "RestrictedGribMetadata_get super_get k dflt astype rom = super_get k dflt astype rom"
  using partition_dot_no_dot [OF assms]
  by (simp add: RestrictedGribMetadata_get_def EKD_NAMESPACE_def Let_def)

lemma internal_keys_plain:
  "list_all (\<lambda>k. CHR ''.'' \<notin> set k \<and> k \<noteq> []) INTERNAL_KEYS"
  by (simp add: INTERNAL_KEYS_def)

text \<open>
  Claim C2, on the code. \<open>get\<close> replaces the key \<open>grib.k\<close> by \<open>k\<close> before it calls the parent
  class, so for every internal key \<open>k\<close> the two calls \<open>get("grib." + k)\<close> and \<open>get(k)\<close> hand the
  parent the same arguments and have the same outcome, whatever the parent's \<open>get\<close> does: the
  first cannot return the wrapped value where the second returns the default.
\<close>

theorem restricted_get_escape_hatch_same_call:
  "list_all (\<lambda>k. RestrictedGribMetadata_get super_get (''grib.'' @ k) dflt astype rom =
                  RestrictedGribMetadata_get super_get k dflt astype rom) INTERNAL_KEYS"
proof -
  have "RestrictedGribMetadata_get super_get (''grib.'' @ k) dflt astype rom =
        RestrictedGribMetadata_get super_get k dflt astype rom"
    if "CHR ''.'' \<notin> set k \<and> k \<noteq> []" for k
    using that restricted_get_strips_prefix [of k super_get dflt astype rom]
          restricted_get_plain [of k super_get dflt astype rom]
    by simp
  then show ?thesis
    using internal_keys_plain by (simp add: list_all_iff)
qed

text \<open>
  With the parent's \<open>get\<close> as the specification describes it, both calls return the default
  for every internal key: \<open>_is_hidden\<close> would let the key \<open>grib.k\<close> through, but it is asked
  about \<open>k\<close>.
\<close>

lemma is_hidden_plain:
  "CHR ''.'' \<notin> set k \<Longrightarrow> is_hidden hidden k = (k \<in> set hidden)"
  by (simp add: is_hidden_def partition_dot_no_dot EKD_NAMESPACE_def Let_def)

lemma is_hidden_escape:
  "CHR ''.'' \<notin> set k \<Longrightarrow> k \<noteq> [] \<Longrightarrow> \<not> is_hidden hidden (''grib.'' @ k)"
  using partition_dot_prefix [of "''grib''" k]
  by (simp add: is_hidden_def EKD_NAMESPACE_def Let_def)

lemma restricted_get_hidden_default:
  assumes "k \<in> set INTERNAL_KEYS"
  shows "RestrictedGribMetadata_get (WrappedMetadata_get INTERNAL_KEYS wrapped_get) k dflt astype False
           = Inr dflt"
    and "RestrictedGribMetadata_get (WrappedMetadata_get INTERNAL_KEYS wrapped_get)
           (''grib.'' @ k) dflt astype False = Inr dflt"
proof -
  from assms internal_keys_plain have k: "CHR ''.'' \<notin> set k" "k \<noteq> []"
    by (auto simp: list_all_iff)
  show "RestrictedGribMetadata_get (WrappedMetadata_get INTERNAL_KEYS wrapped_get) k dflt astype False
           = Inr dflt"
    using assms k by (simp add: restricted_get_plain WrappedMetadata_get_def is_hidden_plain)
  show "RestrictedGribMetadata_get (WrappedMetadata_get INTERNAL_KEYS wrapped_get)
           (''grib.'' @ k) dflt astype False = Inr dflt"
    unfolding restricted_get_strips_prefix [OF k]
    using assms k by (simp add: WrappedMetadata_get_def is_hidden_plain)
qed

lemma escape_hatch_example:
  "RestrictedGribMetadata_get (WrappedMetadata_get INTERNAL_KEYS wrapped_get_example)
     ''grib.minimum'' PNone () False = Inr PNone \<and>
   wrapped_get_example ''minimum'' PNone () False = Inr (PInt 3)"
  using restricted_get_hidden_default(2) [of "''minimum''" wrapped_get_example PNone "()"]
  by (simp add: INTERNAL_KEYS_def wrapped_get_example_def)

section \<open>The restricted view: namespaces and dump\<close>

text \<open>
  \<open>namespaces\<close> leaves out the internal namespace, and \<open>as_namespace\<close> returns nothing for it
  and strips every internal key from any other namespace.
\<close>

lemma restricted_namespaces_value:
  "RestrictedGribMetadata_namespaces =
     [''default'', ''ls'', ''geography'', ''mars'', ''parameter'', ''time'', ''vertical'']"
  by (simp add: RestrictedGribMetadata_namespaces_def INTERNAL_NAMESPACES_def
      GribMetadata_namespaces_def NAMESPACES_def)

lemma restricted_namespaces_exclude:
  "ns \<in> set INTERNAL_NAMESPACES \<Longrightarrow> ns \<notin> set RestrictedGribMetadata_namespaces"
  by (simp add: restricted_namespaces_value INTERNAL_NAMESPACES_def)

lemma strip_loop:
  "fold (\<lambda>k r. if P k then dict_del k r else r) ks r =
     filter (\<lambda>kv. \<not> (fst kv \<in> set ks \<and> P (fst kv))) r"
proof (induction ks arbitrary: r)
  case Nil
  then show ?case by simp
next
  case (Cons k ks)
  have "filter (\<lambda>kv. \<not> (fst kv \<in> set ks \<and> P (fst kv))) (if P k then dict_del k r else r) =
        filter (\<lambda>kv. \<not> (fst kv \<in> set (k # ks) \<and> P (fst kv))) r"
    by (cases "P k") (auto simp: dict_del_def intro!: filter_cong)
  then show ?case
    by (simp add: Cons.IH)
qed

lemma restricted_as_namespace_internal:
  "ns \<in> set INTERNAL_NAMESPACES \<Longrightarrow>
   RestrictedGribMetadata_as_namespace handle_ns (PStr ns) = Inr []"
  by (simp add: RestrictedGribMetadata_as_namespace_def)

lemma restricted_as_namespace_strips:
  assumes "\<not> in_internal_namespaces namespace"
    and "GribMetadata_as_namespace handle_ns namespace = Inr r"
  shows "RestrictedGribMetadata_as_namespace handle_ns namespace =
           Inr (filter (\<lambda>kv. fst kv \<notin> set INTERNAL_KEYS) r)"
proof -
  have "filter (\<lambda>kv. \<not> (fst kv \<in> set (map fst r) \<and> fst kv \<in> set INTERNAL_KEYS)) r =
        filter (\<lambda>kv. fst kv \<notin> set INTERNAL_KEYS) r"
    by (rule filter_cong) auto
  then show ?thesis
    using assms by (simp add: RestrictedGribMetadata_as_namespace_def strip_loop)
qed

text \<open>
  Claim C6, the dump half, at a handle whose full key set holds the internal key \<open>minimum\<close>.
  \<open>dump\<close> hands the namespace list to the wrapped metadata's \<open>dump\<close>, which reads each
  namespace with the wrapped metadata's own \<open>as_namespace\<close>: the \<open>default\<close> group still holds
  \<open>minimum\<close>, and a dump asked for \<open>statistics\<close> by name returns that namespace.
\<close>

theorem restricted_dump_keeps_hidden:
  "RestrictedGribMetadata_dump handle_ns_example NsAll =
     Inr [\<lparr>title = ''default'',
           data = [(''shortName'', PStr ''2t''), (''minimum'', PInt 1)],
           tooltip = PStr ''default''\<rparr>,
          \<lparr>title = ''parameter'',
           data = [(''shortName'', PStr ''2t'')],
           tooltip = PStr ''parameter''\<rparr>] \<and>
   RestrictedGribMetadata_dump handle_ns_example (NsOne (PStr ''statistics'')) =
     Inr [\<lparr>title = ''statistics'',
           data = [(''minimum'', PInt 1)],
           tooltip = PStr ''statistics''\<rparr>]"
  by (simp add: RestrictedGribMetadata_dump_def restricted_namespaces_value handle_ns_example_def
      GribMetadata_namespaces_def NAMESPACES_def)

text \<open>On the same handle \<open>as_namespace\<close> strips the key and empties the internal namespace.\<close>

lemma restricted_as_namespace_example:
  "RestrictedGribMetadata_as_namespace handle_ns_example (PStr ''default'') =
     Inr [(''shortName'', PStr ''2t'')] \<and>
   RestrictedGribMetadata_as_namespace handle_ns_example (PStr ''statistics'') = Inr []"
  by (simp add: RestrictedGribMetadata_as_namespace_def handle_ns_example_def
      INTERNAL_NAMESPACES_def INTERNAL_KEYS_def dict_del_def)

section \<open>Override\<close>

text \<open>
  An override that returns: renaming \<open>shortName\<close> on a field's facade allocates the clone at
  address 1, with the new name and, the clone being headers-only, no values.
\<close>

lemma example_override:
  "override example_keystore example_to_metadata [example_handle] (GribFieldMetadata 0)
     [(''shortName'', PV (PStr ''2t''))] True =
   ([example_handle,
     \<lparr>hkeys = [''edition'' \<mapsto> PInt 2, ''shortName'' \<mapsto> PStr ''2t'', ''bitsPerValue'' \<mapsto> PInt 16],
      hvalues = []\<rparr>],
    Inr (StandAloneGribMetadata 1))"
  by (simp add: override_def merge_gridspec_def patch_clone_def copy_key_def handle_get_def
      md_get_def md_get_default_def dict_del_def example_keystore_def example_handle_def
      fun_upd_twist)

lemma override_store:
  assumes "override ks to_metadata s m d hoc = (s', res)"
  shows "s' = s \<or> (\<exists>h'. s' = s @ [h'])"
  using assms
  by (auto simp: override_def Let_def split: sum.splits prod.splits)

lemma override_result:
  assumes "override ks to_metadata s m d hoc = (s', Inr m')"
  shows "m' = StandAloneGribMetadata (length s) \<and> (\<exists>h'. s' = s @ [h'])"
  using assms
  by (auto simp: override_def Let_def split: sum.splits prod.splits)

text \<open>
  Claim C3. Let \<open>m\<close> be a facade whose handle is allocated in the store \<open>s\<close>. Whatever the
  patch, the key store's operations and the converter do, and whether \<open>override\<close> returns or
  raises, every handle of \<open>s\<close>, the handle of \<open>m\<close> among them, is the same afterwards, so every
  key value of \<open>m\<close> is unchanged. When \<open>override\<close> returns, the result is a standalone facade on
  the handle allocated by the clone, at an address no facade had before: it is not \<open>m\<close> and
  does not share the handle of \<open>m\<close>.
\<close>

theorem override_immutable:
  assumes "handle_of m < length s"
    and "override ks to_metadata s m d hoc = (s', res)"
  shows "(\<forall>a < length s. s' ! a = s ! a) \<and>
         s' ! handle_of m = s ! handle_of m \<and>
         (\<forall>m'. res = Inr m' \<longrightarrow>
            m' = StandAloneGribMetadata (length s) \<and>
            length s' = Suc (length s) \<and>
            handle_of m' \<noteq> handle_of m \<and>
            m' \<noteq> m)"
proof -
  from assms(2) have st: "s' = s \<or> (\<exists>h'. s' = s @ [h'])"
    by (rule override_store)
  then have old: "\<forall>a < length s. s' ! a = s ! a"
    by (auto simp: nth_append)
  have new: "m' = StandAloneGribMetadata (length s) \<and>
            length s' = Suc (length s) \<and>
            handle_of m' \<noteq> handle_of m \<and>
            m' \<noteq> m" if "res = Inr m'" for m'
  proof -
    from that assms(2) have "m' = StandAloneGribMetadata (length s) \<and> (\<exists>h'. s' = s @ [h'])"
      using override_result by blast
    then show ?thesis
      using assms(1) by auto
  qed
  from old new assms(1) show ?thesis
    by blast
qed

theorem override_immutable_witness:
  "fst (override example_keystore example_to_metadata [example_handle] (GribFieldMetadata 0)
          [(''shortName'', PV (PStr ''2t''))] True) ! 0 = example_handle \<and>
   snd (override example_keystore example_to_metadata [example_handle] (GribFieldMetadata 0)
          [(''shortName'', PV (PStr ''2t''))] True) = Inr (StandAloneGribMetadata 1) \<and>
   length (fst (override example_keystore example_to_metadata [example_handle]
          (GribFieldMetadata 0) [(''shortName'', PV (PStr ''2t''))] True)) = 2"
  using override_immutable [of "GribFieldMetadata 0" "[example_handle]" example_keystore
          example_to_metadata "[(''shortName'', PV (PStr ''2t''))]" True
          "fst (override example_keystore example_to_metadata [example_handle]
             (GribFieldMetadata 0) [(''shortName'', PV (PStr ''2t''))] True)"
          "snd (override example_keystore example_to_metadata [example_handle]
             (GribFieldMetadata 0) [(''shortName'', PV (PStr ''2t''))] True)"]
  by (simp add: example_override)

section \<open>Derive, then read back\<close>

lemma flipped_eval:
  "make_gridspec md_flipped =
     Inr [''type'' \<mapsto> GVal (PStr ''regular_ll''),
          ''grid'' \<mapsto> GList [PFloat 10, PFloat 10],
          ''area'' \<mapsto> GList [PInt 0, PInt 0, PInt (- 10), PInt 10],
          ''i_scans_negatively'' \<mapsto> GVal (PInt 0)]"
  by (simp add: md_flipped_def maker_simps md_simps)

text \<open>
  The claim C1 as stated fails whatever the reverse conversion is: the scenario's field and
  the same field with first and last latitude exchanged have the same GridSpec, so nothing
  computed from the GridSpec can return the first latitude of both.
\<close>

theorem gridspec_not_injective_counterexample:
  "make_gridspec md_scenario = make_gridspec md_flipped \<and>
   make_gridspec md_scenario =
     Inr [''type'' \<mapsto> GVal (PStr ''regular_ll''),
          ''grid'' \<mapsto> GList [PFloat 10, PFloat 10],
          ''area'' \<mapsto> GList [PInt 0, PInt 0, PInt (- 10), PInt 10],
          ''i_scans_negatively'' \<mapsto> GVal (PInt 0)] \<and>
   md_get md_scenario ''latitudeOfFirstGridPointInDegrees'' = PInt 0 \<and>
   md_get md_flipped ''latitudeOfFirstGridPointInDegrees'' = PInt (- 10)"
  by (simp add: scenario_eval flipped_eval) (simp add: md_scenario_def md_flipped_def md_simps)

lemma no_converter_reproduces_first_latitude:
  "\<not> (\<exists>to_metadata :: error + gridspec \<Rightarrow> metadata.
        (md_get (to_metadata (make_gridspec md_scenario)) ''latitudeOfFirstGridPointInDegrees''
           = md_get md_scenario ''latitudeOfFirstGridPointInDegrees'') \<and>
        (md_get (to_metadata (make_gridspec md_flipped)) ''latitudeOfFirstGridPointInDegrees''
           = md_get md_flipped ''latitudeOfFirstGridPointInDegrees''))"
proof -
  have "make_gridspec md_scenario = make_gridspec md_flipped"
    by (simp add: scenario_eval flipped_eval)
  moreover have "md_get md_scenario ''latitudeOfFirstGridPointInDegrees'' \<noteq>
                 md_get md_flipped ''latitudeOfFirstGridPointInDegrees''"
    by (simp add: md_scenario_def md_flipped_def md_simps)
  ultimately show ?thesis
    by auto
qed

text \<open>What \<open>add\<close> leaves in the dict when it does not raise.\<close>

lemma add_one_result:
  "add_one md k d = Inr d' \<Longrightarrow>
   (md_get md k \<noteq> PNone \<longrightarrow> vocabulary k \<noteq> None) \<and>
   d' = (if md_get md k \<noteq> PNone then d(the (vocabulary k) \<mapsto> GVal (md_get md k)) else d)"
  by (auto simp: add_one_def Let_def split: option.splits if_splits)

lemma add_append:
  "add md (ks1 @ ks2) d = and_then (add md ks1 d) (add md ks2)"
proof (induction ks1 arbitrary: d)
  case Nil
  then show ?case by simp
next
  case (Cons k ks1)
  then show ?case
    by (cases "add_one md k d") simp_all
qed

lemma add_in_vocabulary:
  "add md ks d = Inr d' \<Longrightarrow> k \<in> set ks \<Longrightarrow> md_get md k \<noteq> PNone \<Longrightarrow> vocabulary k \<noteq> None"
proof (induction ks arbitrary: d)
  case Nil
  then show ?case by simp
next
  case (Cons a ks)
  from Cons.prems(1) obtain d1 where d1: "add_one md a d = Inr d1" "add md ks d1 = Inr d'"
    by (auto simp: and_then_Inr)
  show ?case
  proof (cases "k = a")
    case True
    then show ?thesis
      using add_one_result [OF d1(1)] Cons.prems(3) by simp
  next
    case False
    then show ?thesis
      using Cons.IH [OF d1(2)] Cons.prems by simp
  qed
qed

lemma add_untouched:
  "add md ks d = Inr d' \<Longrightarrow> \<forall>k \<in> set ks. vocabulary k \<noteq> Some n \<Longrightarrow> d' n = d n"
proof (induction ks arbitrary: d)
  case Nil
  then show ?case by simp
next
  case (Cons a ks)
  from Cons.prems(1) obtain d1 where d1: "add_one md a d = Inr d1" "add md ks d1 = Inr d'"
    by (auto simp: and_then_Inr)
  have "d1 n = d n"
    using add_one_result [OF d1(1)] Cons.prems(2) by (auto split: if_splits)
  then show ?case
    using Cons.IH [OF d1(2)] Cons.prems(2) by simp
qed

lemma add_copied:
  assumes "add md ks d = Inr d'" and "k \<in> set ks" and "vocabulary k = Some n"
    and "\<forall>k' \<in> set ks. vocabulary k' = Some n \<longrightarrow> k' = k"
  shows "d' n = (if md_get md k \<noteq> PNone then Some (GVal (md_get md k)) else d n)"
  using assms
proof (induction ks arbitrary: d)
  case Nil
  then show ?case by simp
next
  case (Cons a ks)
  from Cons.prems(1) obtain d1 where d1: "add_one md a d = Inr d1" "add md ks d1 = Inr d'"
    by (auto simp: and_then_Inr)
  note r = add_one_result [OF d1(1)]
  show ?case
  proof (cases "k \<in> set ks")
    case True
    have "d' n = (if md_get md k \<noteq> PNone then Some (GVal (md_get md k)) else d1 n)"
      using Cons.IH [OF d1(2) True Cons.prems(3)] Cons.prems(4) by simp
    moreover have "md_get md k = PNone \<Longrightarrow> d1 n = d n"
      using r Cons.prems(3,4) by (auto split: if_splits)
    ultimately show ?thesis
      by simp
  next
    case False
    with Cons.prems(2) have ka: "a = k" by simp
    have "\<forall>k' \<in> set ks. vocabulary k' \<noteq> Some n"
      using Cons.prems(4) False by auto
    then have "d' n = d1 n"
      using add_untouched [OF d1(2)] by simp
    then show ?thesis
      using r ka Cons.prems(3) by (auto split: if_splits)
  qed
qed

text \<open>
  Every \<open>make\<close> that returns has built its dict from entries under \<open>type\<close>, \<open>grid\<close>, \<open>area\<close>,
  \<open>first_point\<close> and \<open>rotation\<close>, followed by one pass of \<open>add\<close> over the class's copied keys.
\<close>

lemma make_shape:
  assumes "make_dict mk md = Inr g"
  shows "\<exists>d0. add md (copied_keys mk) d0 = Inr g \<and>
              d0 ''type'' = Some (GVal (PStr (GRID_TYPE mk))) \<and>
              (\<forall>n. n \<notin> {''type'', ''grid'', ''area'', ''first_point'', ''rotation''} \<longrightarrow> d0 n = None)"
proof (cases mk)
  case LatLonGridSpecMaker
  with assms show ?thesis
    by (fastforce simp: LatLon_make_def and_then_Inr add_rotation_def add_scan_mode_def copied_keys_def)
next
  case ReducedLatLonGridSpecMaker
  with assms show ?thesis
    by (fastforce simp: ReducedLatLon_make_def and_then_Inr add_rotation_def add_scan_mode_def copied_keys_def)
next
  case RotatedLatLonGridSpecMaker
  with assms show ?thesis
    by (fastforce simp: LatLon_make_def and_then_Inr add_rotation_def add_scan_mode_def copied_keys_def)
next
  case RegularGaussianGridSpecMaker
  with assms show ?thesis
    by (fastforce simp: Gaussian_make_def Let_def and_then_Inr add_rotation_def add_scan_mode_def
        copied_keys_def split: if_splits)
next
  case ReducedGaussianGridSpecMaker
  with assms show ?thesis
    by (fastforce simp: Gaussian_make_def Let_def and_then_Inr add_rotation_def add_scan_mode_def
        copied_keys_def split: if_splits)
next
  case RegularRotatedGaussianGridSpecMaker
  with assms show ?thesis
    by (fastforce simp: Gaussian_make_def Let_def and_then_Inr add_rotation_def add_scan_mode_def
        copied_keys_def split: if_splits)
next
  case ReducedRotatedGaussianGridSpecMaker
  with assms show ?thesis
    by (fastforce simp: Gaussian_make_def Let_def and_then_Inr add_rotation_def add_scan_mode_def
        copied_keys_def split: if_splits)
next
  case MercatorGridSpecMaker
  with assms show ?thesis
    by (fastforce simp: Mercator_make_def and_then_Inr add_scan_mode_def copied_keys_def add_append)
next
  case PolarStereographicGridSpecMaker
  with assms show ?thesis
    by (fastforce simp: PolarStereographic_make_def and_then_Inr add_scan_mode_def copied_keys_def add_append)
next
  case LambertGridSpecMaker
  with assms show ?thesis
    by (fastforce simp: Lambert_make_def and_then_Inr add_scan_mode_def copied_keys_def add_append)
next
  case LambertAEAGridSpecMaker
  with assms show ?thesis
    by (fastforce simp: LambertAEA_make_def and_then_Inr add_scan_mode_def copied_keys_def add_append)
qed

lemmas copied_keys_simps =
  copied_keys_def scan_mode_keys_def Mercator_keys_def PolarStereographic_keys_def
  Lambert_keys_def LambertAEA_keys_def

lemma copied_images:
  "distinct (List.map_filter vocabulary (copied_keys mk)) \<and>
   list_all (\<lambda>n. n \<notin> {''type'', ''grid'', ''area'', ''first_point'', ''rotation''})
     (List.map_filter vocabulary (copied_keys mk))"
  by (cases mk) (simp_all add: copied_keys_simps vocabulary_def List.map_filter_simps)

lemma registered_tag:
  "registered v = Some mk \<Longrightarrow> v = PStr (GRID_TYPE mk)"
  by (cases v) (auto simp: grid_specs_def makers_def split: if_splits)

lemma map_filter_mem:
  "k \<in> set ks \<Longrightarrow> f k = Some n \<Longrightarrow> n \<in> set (List.map_filter f ks)"
  by (induction ks) (auto simp: List.map_filter_simps split: option.splits)

lemma map_filter_unique:
  assumes "distinct (List.map_filter f ks)" and "k \<in> set ks" and "k' \<in> set ks"
    and "f k = Some n" and "f k' = Some n"
  shows "k' = k"
  using assms
proof (induction ks)
  case Nil
  then show ?case by simp
next
  case (Cons a ks)
  show ?case
  proof (cases "f a")
    case None
    then show ?thesis
      using Cons by (auto simp: List.map_filter_simps)
  next
    case (Some m)
    then show ?thesis
      using Cons map_filter_mem [of k ks f n] map_filter_mem [of k' ks f n]
      by (auto simp: List.map_filter_simps)
  qed
qed

lemma copied_keys_unique:
  assumes "k \<in> set (copied_keys mk)" and "k' \<in> set (copied_keys mk)"
    and "vocabulary k = Some n" and "vocabulary k' = Some n"
  shows "k' = k"
  using map_filter_unique [of vocabulary "copied_keys mk" k k' n] copied_images [of mk] assms
  by simp

lemma copied_keys_not_base:
  assumes "k \<in> set (copied_keys mk)" and "vocabulary k = Some n"
  shows "n \<notin> {''type'', ''grid'', ''area'', ''first_point'', ''rotation''}"
proof -
  have "n \<in> set (List.map_filter vocabulary (copied_keys mk))"
    using assms by (rule map_filter_mem)
  then show ?thesis
    using copied_images [of mk] unfolding list_all_iff by blast
qed

text \<open>
  Claim C1, amended. When \<open>gridType\<close> is a registered tag and \<open>make_gridspec\<close> returns, reading
  the GridSpec back through the vocabulary table reproduces the metadata exactly on
  \<open>gridType\<close> and on every key the class copies through the vocabulary: the scan-mode flags,
  the rotation angle of the rotated classes, and the point counts and projection parameters
  of the Mercator, polar stereographic, Lambert and Lambert azimuthal classes. A key that is
  absent from the metadata reads back as absent.
\<close>

theorem vocabulary_round_trip:
  assumes "make_gridspec md = Inr g"
    and "registered (md_get md ''gridType'') = Some mk"
    and "k \<in> set (''gridType'' # copied_keys mk)"
  shows "from_gridspec g k = md_get md k"
proof -
  from assms(1,2) have "make_dict mk md = Inr g"
    by (auto simp: make_gridspec_def and_then_Inr)
  then obtain d0 where d0: "add md (copied_keys mk) d0 = Inr g"
      "d0 ''type'' = Some (GVal (PStr (GRID_TYPE mk)))"
      "\<forall>n. n \<notin> {''type'', ''grid'', ''area'', ''first_point'', ''rotation''} \<longrightarrow> d0 n = None"
    using make_shape by blast
  show ?thesis
  proof (cases "k = ''gridType''")
    case True
    have "\<forall>k' \<in> set (copied_keys mk). vocabulary k' \<noteq> Some ''type''"
      using copied_keys_not_base by blast
    then have "g ''type'' = d0 ''type''"
      using add_untouched [OF d0(1)] by blast
    then show ?thesis
      using True d0(2) registered_tag [OF assms(2)] by (simp add: from_gridspec_def)
  next
    case False
    with assms(3) have k: "k \<in> set (copied_keys mk)"
      by simp
    show ?thesis
    proof (cases "vocabulary k")
      case None
      then have "md_get md k = PNone"
        using add_in_vocabulary [OF d0(1) k] by blast
      then show ?thesis
        using None False by (simp add: from_gridspec_def)
    next
      case (Some n)
      have "\<forall>k' \<in> set (copied_keys mk). vocabulary k' = Some n \<longrightarrow> k' = k"
        using copied_keys_unique [OF k _ Some] by blast
      then have "g n = (if md_get md k \<noteq> PNone then Some (GVal (md_get md k)) else d0 n)"
        using add_copied [OF d0(1) k Some] by blast
      moreover have "d0 n = None"
        using copied_keys_not_base [OF k Some] d0(3) by blast
      ultimately show ?thesis
        using Some False by (simp add: from_gridspec_def)
    qed
  qed
qed

theorem vocabulary_round_trip_witness:
  "from_gridspec
     [''type'' \<mapsto> GVal (PStr ''regular_ll''),
      ''grid'' \<mapsto> GList [PFloat 10, PFloat 10],
      ''area'' \<mapsto> GList [PInt 0, PInt 0, PInt (- 10), PInt 10],
      ''i_scans_negatively'' \<mapsto> GVal (PInt 0)] ''iScansNegatively'' = PInt 0 \<and>
   md_get md_scenario ''iScansNegatively'' = PInt 0"
  using vocabulary_round_trip [of md_scenario
          "[''type'' \<mapsto> GVal (PStr ''regular_ll''),
            ''grid'' \<mapsto> GList [PFloat 10, PFloat 10],
            ''area'' \<mapsto> GList [PInt 0, PInt 0, PInt (- 10), PInt 10],
            ''i_scans_negatively'' \<mapsto> GVal (PInt 0)]"
          LatLonGridSpecMaker "''iScansNegatively''"]
        scenario_eval
  by (simp add: md_scenario_def md_simps grid_specs_def makers_def copied_keys_simps)

end
